theory Spec2Isabelle
  imports Main "HOL-Library.AList"
begin

section \<open>Data model\<close>

text \<open>
  The request bodies of \<^verbatim>\<open>main.py\<close>: \<^verbatim>\<open>GamingEvent\<close> (\<^verbatim>\<open>duration\<close> is a Python
  \<^verbatim>\<open>int\<close>, so unbounded and possibly negative) and \<^verbatim>\<open>ThresholdUpdate\<close> (both fields
  optional, \<^verbatim>\<open>None\<close> when omitted).
\<close>

record GamingEvent =
  user_id :: string
  game_name :: string
  duration :: int

record ThresholdUpdate =
  daily :: "int option"
  night :: "int option"

text \<open>
  A JSON object as Python reads it from a \<^verbatim>\<open>json\<close> column: a dictionary from keys to
  values, kept as an association list in insertion order. The values are JSON integers,
  the only values the handlers store in \<^verbatim>\<open>aggregates\<close> and \<^verbatim>\<open>thresholds\<close>; on those
  Python's \<^verbatim>\<open>int(v)\<close> is the identity.
\<close>

type_synonym json_object = "(string \<times> int) list"

text \<open>\<^verbatim>\<open>d.get(k, v)\<close>\<close>

definition dict_get :: "json_object \<Rightarrow> string \<Rightarrow> int \<Rightarrow> int" where
  "dict_get d k v = (case map_of d k of None \<Rightarrow> v | Some w \<Rightarrow> w)"

text \<open>\<^verbatim>\<open>d[k] = v\<close>: an existing key keeps its place, a new key goes last.\<close>

definition dict_set :: "json_object \<Rightarrow> string \<Rightarrow> int \<Rightarrow> json_object" where
  "dict_set d k v = AList.update k v d"

text \<open>
  A row of table \<^verbatim>\<open>digital_twins\<close> without its key: the columns the handlers read and
  write. Each of \<^verbatim>\<open>thresholds\<close>, \<^verbatim>\<open>aggregates\<close> and \<^verbatim>\<open>state\<close> may be SQL \<^verbatim>\<open>NULL\<close>
  (\<open>None\<close>). \<^verbatim>\<open>updated_at\<close> is a point on the database's clock.
\<close>

record twin_row =
  thresholds :: "json_object option"
  aggregates :: "json_object option"
  state :: "string option"
  updated_at :: nat

text \<open>
  The two tables. \<^verbatim>\<open>events\<close> holds the columns the insert names; \<^verbatim>\<open>digital_twins\<close>
  is a list of rows, each with its \<^verbatim>\<open>user_id\<close>.
\<close>

record database =
  events :: "(string \<times> string \<times> int) list"
  digital_twins :: "(string \<times> twin_row) list"

text \<open>\<^verbatim>\<open>datetime.time\<close>, a naive time of day.\<close>

record time_of_day =
  hour :: nat
  minute :: nat
  second :: nat
  microsecond :: nat

text \<open>\<^verbatim>\<open>time(h, m)\<close>\<close>

definition time :: "nat \<Rightarrow> nat \<Rightarrow> time_of_day" where
  "time h m = \<lparr>hour = h, minute = m, second = 0, microsecond = 0\<rparr>"

text \<open>
  \<^verbatim>\<open>a <= b\<close> on naive times: Python compares the tuples
  \<^verbatim>\<open>(hour, minute, second, microsecond)\<close>, so lexicographically.
\<close>

definition time_le :: "time_of_day \<Rightarrow> time_of_day \<Rightarrow> bool" where
  "time_le a b =
     (hour a < hour b \<or> (hour a = hour b \<and>
       (minute a < minute b \<or> (minute a = minute b \<and>
         (second a < second b \<or> (second a = second b \<and>
           microsecond a \<le> microsecond b))))))"

text \<open>\<^verbatim>\<open>a >= b\<close>\<close>

definition time_ge :: "time_of_day \<Rightarrow> time_of_day \<Rightarrow> bool" where
  "time_ge a b = time_le b a"

section \<open>The store and its failures\<close>

text \<open>
  The calls a handler makes on the database through \<^verbatim>\<open>psycopg2\<close>: opening the
  connection, each statement it executes, and the commit. Any of them may raise.
  Creating the cursor, \<^verbatim>\<open>fetchone\<close> after a \<^verbatim>\<open>SELECT\<close> and the two \<^verbatim>\<open>close\<close> calls work
  on the client alone and are taken to succeed.
\<close>

datatype db_op =
    Connect
  | InsertEvent
  | InsertTwin
  | SelectAggregates
  | UpdateTwin
  | SelectTwin
  | SelectReport
  | SelectThresholds
  | UpdateThresholds
  | Commit

text \<open>
  What a handler cannot see in advance: for each database call whether it raises, and
  with which message (\<^verbatim>\<open>str(e)\<close>); what \<^verbatim>\<open>datetime.now().time()\<close> returns; and what
  \<^verbatim>\<open>NOW()\<close> is in the database.
\<close>

record env =
  faults :: "db_op \<Rightarrow> string option"
  wall_clock :: time_of_day
  db_clock :: nat

text \<open>
  A computation that may raise, and that records every database call it makes: the
  log is kept whether or not the call raised.
\<close>

type_synonym 'a io = "db_op list \<Rightarrow> (string + 'a) \<times> db_op list"

definition execute :: "env \<Rightarrow> db_op \<Rightarrow> 'a \<Rightarrow> 'a io" where
  "execute e op v tr =
     (case faults e op of
        Some msg \<Rightarrow> (Inl msg, tr @ [op])
      | None \<Rightarrow> (Inr v, tr @ [op]))"

definition and_then :: "'a io \<Rightarrow> ('a \<Rightarrow> 'b io) \<Rightarrow> 'b io" where
  "and_then m f tr =
     (case m tr of
        (Inl msg, tr') \<Rightarrow> (Inl msg, tr')
      | (Inr v, tr') \<Rightarrow> f v tr')"

definition return_io :: "'a \<Rightarrow> 'a io" where
  "return_io v tr = (Inr v, tr)"

subsection \<open>The statements\<close>

text \<open>\<^verbatim>\<open>INSERT INTO events (user_id, game_name, duration) VALUES (%s, %s, %s)\<close>\<close>

definition insert_event :: "database \<Rightarrow> GamingEvent \<Rightarrow> database" where
  "insert_event db ev =
     db\<lparr>events := events db @ [(user_id ev, game_name ev, duration ev)]\<rparr>"

text \<open>
  \<^verbatim>\<open>INSERT INTO digital_twins (user_id) VALUES (%s) ON CONFLICT (user_id) DO NOTHING\<close>.
  The new row takes the defaults of the table's columns; the table's declaration is
  not part of \<^verbatim>\<open>main.py\<close>, so the defaults are the parameter \<open>dflt\<close>.
\<close>

definition insert_twin :: "twin_row \<Rightarrow> database \<Rightarrow> string \<Rightarrow> database" where
  "insert_twin dflt db uid =
     (case map_of (digital_twins db) uid of
        Some r \<Rightarrow> db
      | None \<Rightarrow> db\<lparr>digital_twins := digital_twins db @ [(uid, dflt)]\<rparr>)"

text \<open>
  \<^verbatim>\<open>SELECT ... FROM digital_twins WHERE user_id = %s\<close> followed by \<^verbatim>\<open>fetchone()\<close>: the
  first row of that user, \<open>None\<close> when there is none.
\<close>

definition select_twin :: "database \<Rightarrow> string \<Rightarrow> twin_row option" where
  "select_twin db uid = map_of (digital_twins db) uid"

text \<open>\<^verbatim>\<open>UPDATE digital_twins SET ... WHERE user_id = %s\<close>: every row of that user.\<close>

definition update_where :: "string \<Rightarrow> (twin_row \<Rightarrow> twin_row) \<Rightarrow> database \<Rightarrow> database" where
  "update_where uid f db =
     db\<lparr>digital_twins :=
          map (\<lambda>(k, r). if k = uid then (k, f r) else (k, r)) (digital_twins db)\<rparr>"

section \<open>The handlers\<close>

text \<open>
  The responses, each a dictionary in the source. \<open>Processed\<close> carries \<^verbatim>\<open>user_id\<close>,
  \<^verbatim>\<open>game\<close>, \<^verbatim>\<open>today_minutes\<close>, \<^verbatim>\<open>weekly_minutes\<close> and \<^verbatim>\<open>state\<close> of
  \<^verbatim>\<open>{"status": "processed", ...}\<close>; \<open>ErrorEnvelope\<close> the message of
  \<^verbatim>\<open>{"status": "error", "message": ...}\<close>; \<open>UserNotFound\<close> is
  \<^verbatim>\<open>{"error": "User not found"}\<close>; \<open>TwinView\<close> carries \<^verbatim>\<open>user_id\<close>, \<^verbatim>\<open>thresholds\<close>,
  \<^verbatim>\<open>aggregates\<close> and \<^verbatim>\<open>state\<close>; \<open>Report\<close> carries \<^verbatim>\<open>user_id\<close>, the three minute
  counters, \<^verbatim>\<open>state\<close>, \<^verbatim>\<open>daily_threshold\<close> and \<^verbatim>\<open>night_threshold\<close>; \<open>ThresholdsView\<close>
  carries \<^verbatim>\<open>user_id\<close> and \<^verbatim>\<open>thresholds\<close>.
\<close>

datatype response =
    Processed string string int int string
  | ErrorEnvelope string
  | UserNotFound
  | TwinView string "json_object option" "json_object option" "string option"
  | Report string int int int "string option" int int
  | ThresholdsView string json_object

text \<open>
  Lines 109 to 114 of \<^verbatim>\<open>ingest_event\<close>: the state decided from \<^verbatim>\<open>new_today\<close>.
\<close>

definition new_state :: "int \<Rightarrow> string" where
  "new_state new_today =
     (if new_today > 120 then ''Excessive''
      else if new_today > 60 then ''Moderate''
      else ''Healthy'')"

text \<open>
  Line 104 of \<^verbatim>\<open>ingest_event\<close>: \<^verbatim>\<open>now >= time(22, 0) or now <= time(6, 0)\<close>.
\<close>

definition night_window :: "time_of_day \<Rightarrow> bool" where
  "night_window now = (time_ge now (time 22 0) \<or> time_le now (time 6 0))"

text \<open>
  Lines 85 to 92: the aggregates the handler works on. \<^verbatim>\<open>row\<close> is what \<^verbatim>\<open>fetchone\<close>
  returned; a missing row, a \<^verbatim>\<open>NULL\<close> column and an empty object all give the zeroed
  dictionary.
\<close>

definition zero_aggregates :: json_object where
  "zero_aggregates = [(''today_minutes'', 0), (''weekly_minutes'', 0), (''night_minutes'', 0)]"

definition read_aggregates :: "twin_row option \<Rightarrow> json_object" where
  "read_aggregates row =
     (case row of
        None \<Rightarrow> zero_aggregates
      | Some r \<Rightarrow>
          (case aggregates r of
             None \<Rightarrow> zero_aggregates
           | Some a \<Rightarrow> if a = [] then zero_aggregates else a))"

text \<open>
  Lines 94 to 106: the three counters, the night counter only in the window. The
  result is the dictionary with the locals \<^verbatim>\<open>new_today\<close> and \<^verbatim>\<open>new_weekly\<close>.
\<close>

definition update_aggregates ::
  "time_of_day \<Rightarrow> int \<Rightarrow> json_object \<Rightarrow> json_object \<times> int \<times> int" where
  "update_aggregates now d a0 =
     (let new_today = dict_get a0 ''today_minutes'' 0 + d;
          a1 = dict_set a0 ''today_minutes'' new_today;
          new_weekly = dict_get a1 ''weekly_minutes'' 0 + d;
          a2 = dict_set a1 ''weekly_minutes'' new_weekly;
          a3 = (if night_window now
                then dict_set a2 ''night_minutes'' (dict_get a2 ''night_minutes'' 0 + d)
                else a2)
      in (a3, new_today, new_weekly))"

text \<open>
  The body of \<^verbatim>\<open>ingest_event\<close> inside \<^verbatim>\<open>try\<close>. The statements run in a transaction on
  the connection's view of the database; the view becomes the stored database at
  \<^verbatim>\<open>conn.commit()\<close>.
\<close>

definition ingest_event_body ::
  "twin_row \<Rightarrow> env \<Rightarrow> database \<Rightarrow> GamingEvent \<Rightarrow> (database \<times> response) io" where
  "ingest_event_body dflt e db ev =
     and_then (execute e Connect db) (\<lambda>v0.
     and_then (execute e InsertEvent (insert_event v0 ev)) (\<lambda>v1.
     and_then (execute e InsertTwin (insert_twin dflt v1 (user_id ev))) (\<lambda>v2.
     and_then (execute e SelectAggregates (select_twin v2 (user_id ev))) (\<lambda>row.
       case update_aggregates (wall_clock e) (duration ev) (read_aggregates row) of
         (a, new_today, new_weekly) \<Rightarrow>
     and_then (execute e UpdateTwin
        (update_where (user_id ev)
           (\<lambda>r. r\<lparr>aggregates := Some a, state := Some (new_state new_today),
                   updated_at := db_clock e\<rparr>) v2)) (\<lambda>v3.
     and_then (execute e Commit v3) (\<lambda>stored.
     return_io (stored,
        Processed (user_id ev) (game_name ev) new_today new_weekly
          (new_state new_today))))))))"

text \<open>
  \<^verbatim>\<open>ingest_event\<close>: \<^verbatim>\<open>except Exception\<close> turns whatever was raised into the error
  envelope. Nothing was committed then, so the stored database is the one the call
  started with. The result is the stored database, the response and the log of the
  database calls made.
\<close>

definition ingest_event ::
  "twin_row \<Rightarrow> env \<Rightarrow> database \<Rightarrow> GamingEvent \<Rightarrow> database \<times> response \<times> db_op list" where
  "ingest_event dflt e db ev =
     (case ingest_event_body dflt e db ev [] of
        (Inl msg, tr) \<Rightarrow> (db, ErrorEnvelope msg, tr)
      | (Inr (stored, resp), tr) \<Rightarrow> (stored, resp, tr))"

text \<open>
  \<^verbatim>\<open>get_twin\<close>: a read, with no commit. \<^verbatim>\<open>result[0]\<close> is the \<^verbatim>\<open>user_id\<close> the
  \<^verbatim>\<open>WHERE\<close> clause selected.
\<close>

definition get_twin_body :: "env \<Rightarrow> database \<Rightarrow> string \<Rightarrow> response io" where
  "get_twin_body e db uid =
     and_then (execute e Connect db) (\<lambda>v0.
     and_then (execute e SelectTwin (select_twin v0 uid)) (\<lambda>result.
     return_io
       (case result of
          Some r \<Rightarrow> TwinView uid (thresholds r) (aggregates r) (state r)
        | None \<Rightarrow> UserNotFound)))"

definition get_twin :: "env \<Rightarrow> database \<Rightarrow> string \<Rightarrow> response \<times> db_op list" where
  "get_twin e db uid =
     (case get_twin_body e db uid [] of
        (Inl msg, tr) \<Rightarrow> (ErrorEnvelope msg, tr)
      | (Inr resp, tr) \<Rightarrow> (resp, tr))"

text \<open>\<^verbatim>\<open>row[i] or {}\<close>: \<^verbatim>\<open>NULL\<close> reads as the empty object.\<close>

definition or_empty :: "json_object option \<Rightarrow> json_object" where
  "or_empty c = (case c of None \<Rightarrow> [] | Some d \<Rightarrow> d)"

text \<open>\<^verbatim>\<open>get_report\<close>\<close>

definition get_report_body :: "env \<Rightarrow> database \<Rightarrow> string \<Rightarrow> response io" where
  "get_report_body e db uid =
     and_then (execute e Connect db) (\<lambda>v0.
     and_then (execute e SelectReport (select_twin v0 uid)) (\<lambda>row.
     return_io
       (case row of
          None \<Rightarrow> UserNotFound
        | Some r \<Rightarrow>
            (let ths = or_empty (thresholds r);
                 aggs = or_empty (aggregates r)
             in Report uid
                  (dict_get aggs ''today_minutes'' 0)
                  (dict_get aggs ''weekly_minutes'' 0)
                  (dict_get aggs ''night_minutes'' 0)
                  (state r)
                  (dict_get ths ''daily'' 120)
                  (dict_get ths ''night'' 60)))))"

definition get_report :: "env \<Rightarrow> database \<Rightarrow> string \<Rightarrow> response \<times> db_op list" where
  "get_report e db uid =
     (case get_report_body e db uid [] of
        (Inl msg, tr) \<Rightarrow> (ErrorEnvelope msg, tr)
      | (Inr resp, tr) \<Rightarrow> (resp, tr))"

text \<open>The literal \<^verbatim>\<open>{"daily": 120, "night": 60}\<close> of \<^verbatim>\<open>update_threshold\<close>.\<close>

definition default_thresholds :: json_object where
  "default_thresholds = [(''daily'', 120), (''night'', 60)]"

text \<open>\<^verbatim>\<open>row[0] or {"daily": 120, "night": 60}\<close>\<close>

definition or_default_thresholds :: "json_object option \<Rightarrow> json_object" where
  "or_default_thresholds c =
     (case c of
        None \<Rightarrow> default_thresholds
      | Some t \<Rightarrow> if t = [] then default_thresholds else t)"

text \<open>Lines 243 to 246: only the fields the body supplies are stored.\<close>

definition merge_thresholds :: "ThresholdUpdate \<Rightarrow> json_object \<Rightarrow> json_object" where
  "merge_thresholds body t0 =
     (let t1 = (case daily body of Some v \<Rightarrow> dict_set t0 ''daily'' v | None \<Rightarrow> t0)
      in (case night body of Some v \<Rightarrow> dict_set t1 ''night'' v | None \<Rightarrow> t1))"

text \<open>
  The body of \<^verbatim>\<open>update_threshold\<close>: the insert runs only when the select found no
  row.
\<close>

definition update_threshold_body ::
  "twin_row \<Rightarrow> env \<Rightarrow> database \<Rightarrow> string \<Rightarrow> ThresholdUpdate \<Rightarrow> (database \<times> response) io" where
  "update_threshold_body dflt e db uid body =
     and_then (execute e Connect db) (\<lambda>v0.
     and_then (execute e SelectThresholds (select_twin v0 uid)) (\<lambda>row.
     and_then
       (case row of
          None \<Rightarrow>
            and_then (execute e InsertTwin (insert_twin dflt v0 uid)) (\<lambda>v1.
            return_io (v1, default_thresholds))
        | Some r \<Rightarrow> return_io (v0, or_default_thresholds (thresholds r))) (\<lambda>(v1, t0).
       let t = merge_thresholds body t0 in
     and_then (execute e UpdateThresholds
        (update_where uid (\<lambda>r. r\<lparr>thresholds := Some t, updated_at := db_clock e\<rparr>) v1)) (\<lambda>v2.
     and_then (execute e Commit v2) (\<lambda>stored.
     return_io (stored, ThresholdsView uid t))))))"

definition update_threshold ::
  "twin_row \<Rightarrow> env \<Rightarrow> database \<Rightarrow> string \<Rightarrow> ThresholdUpdate
     \<Rightarrow> database \<times> response \<times> db_op list" where
  "update_threshold dflt e db uid body =
     (case update_threshold_body dflt e db uid body [] of
        (Inl msg, tr) \<Rightarrow> (db, ErrorEnvelope msg, tr)
      | (Inr (stored, resp), tr) \<Rightarrow> (stored, resp, tr))"

section \<open>Runs of events, one after the other\<close>

text \<open>
  Each call is an event with the environment it meets; a call starts on the database
  the one before it left.
\<close>

fun apply_events :: "twin_row \<Rightarrow> database \<Rightarrow> (env \<times> GamingEvent) list \<Rightarrow> database" where
  "apply_events dflt db [] = db"
| "apply_events dflt db (c # cs) =
     apply_events dflt (fst (ingest_event dflt (fst c) db (snd c))) cs"

text \<open>The database calls of \<^verbatim>\<open>ingest_event\<close>, in the order of the source.\<close>

definition ingest_ops :: "db_op list" where
  "ingest_ops = [Connect, InsertEvent, InsertTwin, SelectAggregates, UpdateTwin, Commit]"

text \<open>None of the database calls of \<^verbatim>\<open>ingest_event\<close> raises.\<close>

definition ingest_succeeds :: "env \<Rightarrow> bool" where
  "ingest_succeeds e = list_all (\<lambda>op. faults e op = None) ingest_ops"

text \<open>
  A counter of a user as the report reads it from the stored row: \<^verbatim>\<open>NULL\<close>
  aggregates, a missing key and a missing row all read as 0.
\<close>

definition stored_counter :: "database \<Rightarrow> string \<Rightarrow> string \<Rightarrow> int" where
  "stored_counter db uid k =
     (case select_twin db uid of
        None \<Rightarrow> 0
      | Some r \<Rightarrow> dict_get (or_empty (aggregates r)) k 0)"

text \<open>
  The aggregates of a user as \<^verbatim>\<open>ingest_event\<close> reads them (lines 69 to 92): those of
  the stored row, or of the row the insert creates when there is none, zeroed when
  \<^verbatim>\<open>NULL\<close> or empty.
\<close>

definition current_aggregates :: "twin_row \<Rightarrow> database \<Rightarrow> string \<Rightarrow> json_object" where
  "current_aggregates dflt db uid = read_aggregates (select_twin (insert_twin dflt db uid) uid)"

text \<open>
  The message of the first database call of a list that raises, and the calls made up
  to and including that one.
\<close>

fun first_fault :: "env \<Rightarrow> db_op list \<Rightarrow> string option" where
  "first_fault e [] = None"
| "first_fault e (op # ops) =
     (case faults e op of Some msg \<Rightarrow> Some msg | None \<Rightarrow> first_fault e ops)"

fun calls_until_fault :: "env \<Rightarrow> db_op list \<Rightarrow> db_op list" where
  "calls_until_fault e [] = []"
| "calls_until_fault e (op # ops) =
     (case faults e op of Some msg \<Rightarrow> [op] | None \<Rightarrow> op # calls_until_fault e ops)"

text \<open>
  The rows of a user in \<^verbatim>\<open>digital_twins\<close>.
\<close>

definition twin_rows :: "database \<Rightarrow> string \<Rightarrow> twin_row list" where
  "twin_rows db uid = map snd (filter (\<lambda>p. fst p = uid) (digital_twins db))"

text \<open>
  The database calls of \<^verbatim>\<open>update_threshold\<close>, in the order of the source: the insert
  is made only for a user without a row.
\<close>

definition threshold_ops :: "database \<Rightarrow> string \<Rightarrow> db_op list" where
  "threshold_ops db uid =
     (case select_twin db uid of
        None \<Rightarrow> [Connect, SelectThresholds, InsertTwin, UpdateThresholds, Commit]
      | Some r \<Rightarrow> [Connect, SelectThresholds, UpdateThresholds, Commit])"

text \<open>None of the database calls of \<^verbatim>\<open>update_threshold\<close> raises.\<close>

definition threshold_succeeds :: "env \<Rightarrow> database \<Rightarrow> string \<Rightarrow> bool" where
  "threshold_succeeds e db uid = list_all (\<lambda>op. faults e op = None) (threshold_ops db uid)"

text \<open>
  The thresholds \<^verbatim>\<open>update_threshold\<close> merges into (lines 228 to 241): those of the
  stored row, the literal defaults when there is no row or the column is \<^verbatim>\<open>NULL\<close> or
  empty.
\<close>

definition prior_thresholds :: "database \<Rightarrow> string \<Rightarrow> json_object" where
  "prior_thresholds db uid =
     (case select_twin db uid of
        None \<Rightarrow> default_thresholds
      | Some r \<Rightarrow> or_default_thresholds (thresholds r))"

text \<open>
  Modelled from the spec: the column defaults of table \<^verbatim>\<open>digital_twins\<close>, whose
  declaration is not part of \<^verbatim>\<open>main.py\<close>. The spec creates a twin "with default
  thresholds \<^verbatim>\<open>{daily:120, night:60}\<close> and zeroed aggregates"; it gives no default for
  \<^verbatim>\<open>state\<close> and \<^verbatim>\<open>updated_at\<close>, which stay parameters.
\<close>

definition spec_default_row :: "string option \<Rightarrow> nat \<Rightarrow> twin_row" where
  "spec_default_row st ts =
     \<lparr>thresholds = Some default_thresholds, aggregates = Some zero_aggregates,
      state = st, updated_at = ts\<rparr>"

section \<open>Calls that overlap\<close>

text \<open>
  \<^verbatim>\<open>ingest_event\<close> reads the aggregates with one statement (line 80) and writes them
  with a later one (line 117); between the two it holds no lock on the row, checks no
  version and leaves the addition to Python. When two calls are handled at the same
  time, on connections of their own, each works in a transaction that sees what is
  committed when its statement runs and publishes its writes at its commit. A call is
  therefore two steps for the others. Its first part, lines 57 to 92, is what it
  reads:
\<close>

definition ingest_read :: "twin_row \<Rightarrow> database \<Rightarrow> GamingEvent \<Rightarrow> json_object" where
  "ingest_read dflt db ev =
     read_aggregates
       (select_twin (insert_twin dflt (insert_event db ev) (user_id ev)) (user_id ev))"

text \<open>
  Its second part, lines 94 to 128, computes from what was read and commits onto the
  database as it is stored by then:
\<close>

definition ingest_write ::
  "twin_row \<Rightarrow> env \<Rightarrow> database \<Rightarrow> GamingEvent \<Rightarrow> json_object \<Rightarrow> database" where
  "ingest_write dflt e db ev a0 =
     (case update_aggregates (wall_clock e) (duration ev) a0 of
        (a, new_today, new_weekly) \<Rightarrow>
          update_where (user_id ev)
            (\<lambda>r. r\<lparr>aggregates := Some a, state := Some (new_state new_today),
                    updated_at := db_clock e\<rparr>)
            (insert_twin dflt (insert_event db ev) (user_id ev)))"

text \<open>
  A schedule lists the parts in the order they take effect: \<open>Begin i ev\<close> is the first
  part of call \<open>i\<close>, \<open>Finish i e ev\<close> its second. The state is the stored database
  with what each call in flight has read. For a user whose row exists the insert of
  line 70 does nothing and waits for nobody, so any order of the parts of two calls
  can occur in which each call begins before it finishes.
\<close>

datatype phase = Begin nat GamingEvent | Finish nat env GamingEvent

fun run_phase ::
  "twin_row \<Rightarrow> phase \<Rightarrow> database \<times> (nat \<Rightarrow> json_object option)
     \<Rightarrow> database \<times> (nat \<Rightarrow> json_object option)" where
  "run_phase dflt (Begin i ev) (db, reads) = (db, reads(i \<mapsto> ingest_read dflt db ev))"
| "run_phase dflt (Finish i e ev) (db, reads) =
     (case reads i of
        None \<Rightarrow> (db, reads)
      | Some a0 \<Rightarrow> (ingest_write dflt e db ev a0, reads(i := None)))"

fun run_schedule ::
  "twin_row \<Rightarrow> phase list \<Rightarrow> database \<times> (nat \<Rightarrow> json_object option)
     \<Rightarrow> database \<times> (nat \<Rightarrow> json_object option)" where
  "run_schedule dflt [] s = s"
| "run_schedule dflt (p # ps) s = run_schedule dflt ps (run_phase dflt p s)"

text \<open>The schedule in which every call finishes before the next begins.\<close>

fun one_after_another :: "(env \<times> GamingEvent) list \<Rightarrow> phase list" where
  "one_after_another [] = []"
| "one_after_another (c # cs) = Begin 0 (snd c) # Finish 0 (fst c) (snd c) # one_after_another cs"

section \<open>Dictionaries and statements\<close>

lemma dict_get_set:
  "dict_get (dict_set d k v) k' w = (if k' = k then v else dict_get d k' w)"
  by (simp add: dict_get_def dict_set_def update_conv')

lemma select_insert_event [simp]:
  "select_twin (insert_event db ev) uid = select_twin db uid"
  by (simp add: select_twin_def insert_event_def)

lemma select_insert_twin:
  "select_twin (insert_twin dflt db uid) uid' =
     (if uid' = uid
      then Some (case select_twin db uid of None \<Rightarrow> dflt | Some r \<Rightarrow> r)
      else select_twin db uid')"
  by (auto simp: select_twin_def insert_twin_def map_add_def split: option.splits)

lemma map_of_update_rows:
  "map_of (map (\<lambda>(k, r). if k = uid then (k, f r) else (k, r)) rows) uid' =
     (if uid' = uid then map_option f (map_of rows uid') else map_of rows uid')"
  by (induction rows) auto

lemma select_update_where:
  "select_twin (update_where uid f db) uid' =
     (if uid' = uid then map_option f (select_twin db uid') else select_twin db uid')"
  by (simp add: select_twin_def update_where_def map_of_update_rows)

section \<open>Calls that succeed and calls that fail\<close>

lemma ingest_event_ok:
  "ingest_succeeds e \<Longrightarrow>
   ingest_event dflt e db ev =
     (case update_aggregates (wall_clock e) (duration ev)
             (current_aggregates dflt db (user_id ev)) of
        (a, new_today, new_weekly) \<Rightarrow>
          (update_where (user_id ev)
             (\<lambda>r. r\<lparr>aggregates := Some a, state := Some (new_state new_today),
                     updated_at := db_clock e\<rparr>)
             (insert_twin dflt (insert_event db ev) (user_id ev)),
           Processed (user_id ev) (game_name ev) new_today new_weekly (new_state new_today),
           ingest_ops))"
  by (simp add: ingest_succeeds_def ingest_ops_def ingest_event_def ingest_event_body_def
      and_then_def execute_def return_io_def current_aggregates_def select_insert_twin
      split: prod.splits)

lemma ingest_event_fail:
  "first_fault e ingest_ops = Some msg \<Longrightarrow>
   ingest_event dflt e db ev = (db, ErrorEnvelope msg, calls_until_fault e ingest_ops)"
  by (simp add: ingest_ops_def ingest_event_def ingest_event_body_def
      and_then_def execute_def return_io_def split: option.splits prod.splits)

lemma first_fault_None:
  "first_fault e ops = None \<longleftrightarrow> list_all (\<lambda>op. faults e op = None) ops"
  by (induction ops) (auto split: option.splits)

lemma not_succeeds_fault:
  "\<not> ingest_succeeds e \<Longrightarrow> \<exists>msg. first_fault e ingest_ops = Some msg"
  using first_fault_None [of e ingest_ops] by (cases "first_fault e ingest_ops") (auto simp: ingest_succeeds_def)

lemma ingest_event_fail_db:
  "\<not> ingest_succeeds e \<Longrightarrow> fst (ingest_event dflt e db ev) = db"
  using not_succeeds_fault [of e] ingest_event_fail [of e _ dflt db ev] by auto

lemma update_aggregates_nonempty: "fst (update_aggregates now d a) \<noteq> []"
  by (simp add: update_aggregates_def dict_set_def Let_def)

lemma update_aggregates_today:
  "dict_get (fst (update_aggregates now d a)) ''today_minutes'' 0 = dict_get a ''today_minutes'' 0 + d"
  by (simp add: update_aggregates_def Let_def dict_get_set)

lemma update_aggregates_weekly:
  "dict_get (fst (update_aggregates now d a)) ''weekly_minutes'' 0 = dict_get a ''weekly_minutes'' 0 + d"
  by (simp add: update_aggregates_def Let_def dict_get_set)

lemma update_aggregates_night:
  "dict_get (fst (update_aggregates now d a)) ''night_minutes'' 0 =
     dict_get a ''night_minutes'' 0 + (if night_window now then d else 0)"
  by (simp add: update_aggregates_def Let_def dict_get_set)

lemma update_aggregates_locals:
  "snd (update_aggregates now d a) =
     (dict_get a ''today_minutes'' 0 + d, dict_get a ''weekly_minutes'' 0 + d)"
  by (simp add: update_aggregates_def Let_def dict_get_set)

lemma stored_after_ok:
  "ingest_succeeds e \<Longrightarrow>
   select_twin (fst (ingest_event dflt e db ev)) uid =
     (if uid = user_id ev
      then Some ((case select_twin db uid of None \<Rightarrow> dflt | Some r \<Rightarrow> r)
        \<lparr>aggregates := Some (fst (update_aggregates (wall_clock e) (duration ev)
             (current_aggregates dflt db uid))),
         state := Some (new_state
           (dict_get (current_aggregates dflt db uid) ''today_minutes'' 0 + duration ev)),
         updated_at := db_clock e\<rparr>)
      else select_twin db uid)"
  by (simp add: ingest_event_ok select_insert_twin select_update_where update_aggregates_def
      Let_def split: prod.splits)

lemma current_aggregates_row:
  "current_aggregates dflt db uid =
     read_aggregates (Some (case select_twin db uid of None \<Rightarrow> dflt | Some r \<Rightarrow> r))"
  by (simp add: current_aggregates_def select_insert_twin)

lemma read_aggregates_written:
  "a \<noteq> [] \<Longrightarrow> read_aggregates (Some (r\<lparr>aggregates := Some a, state := s, updated_at := u\<rparr>)) = a"
  by (simp add: read_aggregates_def)

lemma current_after_ok:
  assumes "ingest_succeeds e"
  shows "current_aggregates dflt (fst (ingest_event dflt e db ev)) uid =
     (if uid = user_id ev
      then fst (update_aggregates (wall_clock e) (duration ev) (current_aggregates dflt db uid))
      else current_aggregates dflt db uid)"
proof (cases "uid = user_id ev")
  case True
  show ?thesis
    unfolding current_aggregates_row [of dflt "fst (ingest_event dflt e db ev)"]
    by (simp add: stored_after_ok [OF assms] True read_aggregates_written
        update_aggregates_nonempty)
next
  case False
  then show ?thesis
    by (simp add: current_aggregates_row stored_after_ok [OF assms])
qed

lemma read_aggregates_counter:
  "dict_get (read_aggregates (Some r)) k 0 = dict_get (or_empty (aggregates r)) k 0"
  by (simp add: read_aggregates_def or_empty_def zero_aggregates_def dict_get_def split: option.splits)

section \<open>State classification\<close>

lemma current_aggregates_thresholds:
  "current_aggregates dflt (update_where uid (\<lambda>r. r\<lparr>thresholds := th\<rparr>) db) uid' =
   current_aggregates dflt db uid'"
  by (simp add: current_aggregates_row select_update_where read_aggregates_def
      split: option.splits)

lemma first_fault_cases:
  "ingest_succeeds e \<or> (\<exists>msg. first_fault e ingest_ops = Some msg)"
  using not_succeeds_fault by blast

lemma response_thresholds:
  "fst (snd (ingest_event dflt e (update_where uid (\<lambda>r. r\<lparr>thresholds := th\<rparr>) db) ev)) =
   fst (snd (ingest_event dflt e db ev))"
  using first_fault_cases [of e]
  by (auto simp: ingest_event_ok ingest_event_fail current_aggregates_thresholds split: prod.splits)

text \<open>
  Claim C3. The state decided from today's minutes is \<open>Excessive\<close> exactly above 120,
  \<open>Moderate\<close> exactly above 60 and up to 120, and \<open>Healthy\<close> exactly up to 60; so 60
  is Healthy, 61 and 120 are Moderate and 121 is Excessive. The cutoffs are fixed: the
  response of \<^verbatim>\<open>ingest_event\<close> is the same whatever thresholds the user's row holds,
  and the state of a processed response is the one decided from the minutes it
  reports.
\<close>

theorem state_classification:
  "(new_state t = ''Excessive'' \<longleftrightarrow> t > 120) \<and>
   (new_state t = ''Moderate'' \<longleftrightarrow> 60 < t \<and> t \<le> 120) \<and>
   (new_state t = ''Healthy'' \<longleftrightarrow> t \<le> 60) \<and>
   new_state 60 = ''Healthy'' \<and> new_state 61 = ''Moderate'' \<and>
   new_state 120 = ''Moderate'' \<and> new_state 121 = ''Excessive'' \<and>
   fst (snd (ingest_event dflt e (update_where uid (\<lambda>r. r\<lparr>thresholds := th\<rparr>) db) ev)) =
     fst (snd (ingest_event dflt e db ev)) \<and>
   (case fst (snd (ingest_event dflt e db ev)) of
      Processed u g today weekly s \<Rightarrow> s = new_state today
    | ErrorEnvelope msg \<Rightarrow> True
    | _ \<Rightarrow> False)"
proof -
  have cls: "(new_state t = ''Excessive'' \<longleftrightarrow> t > 120) \<and>
      (new_state t = ''Moderate'' \<longleftrightarrow> 60 < t \<and> t \<le> 120) \<and>
      (new_state t = ''Healthy'' \<longleftrightarrow> t \<le> 60)"
    by (simp add: new_state_def)
  have vals: "new_state 60 = ''Healthy'' \<and> new_state 61 = ''Moderate'' \<and>
      new_state 120 = ''Moderate'' \<and> new_state 121 = ''Excessive''"
    by (simp add: new_state_def)
  have resp: "(case fst (snd (ingest_event dflt e db ev)) of
      Processed u g today weekly s \<Rightarrow> s = new_state today
    | ErrorEnvelope msg \<Rightarrow> True
    | _ \<Rightarrow> False)"
    using first_fault_cases [of e]
    by (auto simp: ingest_event_ok ingest_event_fail split: prod.splits)
  show ?thesis using cls vals resp response_thresholds by blast
qed

section \<open>Stored rows and counters\<close>

lemma stored_counter_row:
  "stored_counter db uid k =
     (if select_twin db uid = None then 0 else dict_get (current_aggregates dflt db uid) k 0)"
  by (auto simp: stored_counter_def current_aggregates_row read_aggregates_counter)

lemma row_made:
  "ingest_succeeds e \<Longrightarrow> select_twin (fst (ingest_event dflt e db ev)) (user_id ev) \<noteq> None"
  by (simp add: stored_after_ok)

lemma row_kept:
  "select_twin db uid \<noteq> None \<Longrightarrow> select_twin (fst (ingest_event dflt e db ev)) uid \<noteq> None"
proof (cases "ingest_succeeds e")
  case True
  assume "select_twin db uid \<noteq> None"
  then show ?thesis by (simp add: stored_after_ok [OF True])
next
  case False
  assume "select_twin db uid \<noteq> None"
  then show ?thesis by (simp add: ingest_event_fail_db [OF False])
qed

lemma row_kept_run:
  "select_twin db uid \<noteq> None \<Longrightarrow> select_twin (apply_events dflt db calls) uid \<noteq> None"
proof (induction calls arbitrary: db)
  case Nil
  then show ?case by simp
next
  case (Cons c cs)
  have "select_twin (fst (ingest_event dflt (fst c) db (snd c))) uid \<noteq> None"
    using Cons.prems by (rule row_kept)
  then show ?case using Cons.IH by simp
qed

lemma stored_counter_existing:
  "select_twin db uid \<noteq> None \<Longrightarrow>
   stored_counter db uid k = dict_get (current_aggregates dflt db uid) k 0"
  by (auto simp: stored_counter_row [of db uid k dflt])

lemma counter_after_ok:
  assumes "ingest_succeeds e"
  shows "dict_get (current_aggregates dflt (fst (ingest_event dflt e db ev)) uid) ''today_minutes'' 0 =
           dict_get (current_aggregates dflt db uid) ''today_minutes'' 0 +
             (if uid = user_id ev then duration ev else 0)"
    and "dict_get (current_aggregates dflt (fst (ingest_event dflt e db ev)) uid) ''weekly_minutes'' 0 =
           dict_get (current_aggregates dflt db uid) ''weekly_minutes'' 0 +
             (if uid = user_id ev then duration ev else 0)"
    and "dict_get (current_aggregates dflt (fst (ingest_event dflt e db ev)) uid) ''night_minutes'' 0 =
           dict_get (current_aggregates dflt db uid) ''night_minutes'' 0 +
             (if uid = user_id ev \<and> night_window (wall_clock e) then duration ev else 0)"
  by (simp_all add: current_after_ok [OF assms] update_aggregates_today
      update_aggregates_weekly update_aggregates_night)

section \<open>Night window\<close>

lemma night_window_hours:
  "night_window t \<longleftrightarrow>
     22 \<le> hour t \<or> hour t < 6 \<or>
     (hour t = 6 \<and> minute t = 0 \<and> second t = 0 \<and> microsecond t = 0)"
  by (auto simp: night_window_def time_ge_def time_le_def time_def)

text \<open>
  Claim C4. A processed event adds its duration to \<^verbatim>\<open>night_minutes\<close> exactly when the
  wall clock read while the event is handled is in the night window, and adds it to
  \<^verbatim>\<open>today_minutes\<close> and \<^verbatim>\<open>weekly_minutes\<close> whatever the time (the event carries no time
  of its own). The window is \<^verbatim>\<open>now >= 22:00 or now <= 06:00\<close> with both ends
  included: 22:00:00 and 06:00:00 are night, one microsecond after 06:00:00 and one
  before 22:00:00 are not; 23:00 and 05:30 are night, 12:00 is not.
\<close>

theorem night_window_attribution:
  assumes "ingest_succeeds e"
  shows "stored_counter (fst (ingest_event dflt e db ev)) (user_id ev) ''night_minutes'' =
           dict_get (current_aggregates dflt db (user_id ev)) ''night_minutes'' 0 +
             (if night_window (wall_clock e) then duration ev else 0) \<and>
         stored_counter (fst (ingest_event dflt e db ev)) (user_id ev) ''today_minutes'' =
           dict_get (current_aggregates dflt db (user_id ev)) ''today_minutes'' 0 + duration ev \<and>
         stored_counter (fst (ingest_event dflt e db ev)) (user_id ev) ''weekly_minutes'' =
           dict_get (current_aggregates dflt db (user_id ev)) ''weekly_minutes'' 0 + duration ev \<and>
         (night_window t \<longleftrightarrow>
            22 \<le> hour t \<or> hour t < 6 \<or>
            (hour t = 6 \<and> minute t = 0 \<and> second t = 0 \<and> microsecond t = 0)) \<and>
         night_window (time 6 0) \<and> night_window (time 22 0) \<and>
         night_window (time 23 0) \<and> night_window (time 5 30) \<and>
         \<not> night_window (time 12 0) \<and>
         \<not> night_window \<lparr>hour = 6, minute = 0, second = 0, microsecond = 1\<rparr> \<and>
         \<not> night_window \<lparr>hour = 21, minute = 59, second = 59, microsecond = 999999\<rparr>"
proof -
  have row: "select_twin (fst (ingest_event dflt e db ev)) (user_id ev) \<noteq> None"
    using assms by (rule row_made)
  have counters:
    "stored_counter (fst (ingest_event dflt e db ev)) (user_id ev) ''night_minutes'' =
       dict_get (current_aggregates dflt db (user_id ev)) ''night_minutes'' 0 +
         (if night_window (wall_clock e) then duration ev else 0)"
    "stored_counter (fst (ingest_event dflt e db ev)) (user_id ev) ''today_minutes'' =
       dict_get (current_aggregates dflt db (user_id ev)) ''today_minutes'' 0 + duration ev"
    "stored_counter (fst (ingest_event dflt e db ev)) (user_id ev) ''weekly_minutes'' =
       dict_get (current_aggregates dflt db (user_id ev)) ''weekly_minutes'' 0 + duration ev"
    by (simp_all add: stored_counter_existing [OF row, of _ dflt] counter_after_ok [OF assms])
  have vals: "night_window (time 6 0) \<and> night_window (time 22 0) \<and>
         night_window (time 23 0) \<and> night_window (time 5 30) \<and>
         \<not> night_window (time 12 0) \<and>
         \<not> night_window \<lparr>hour = 6, minute = 0, second = 0, microsecond = 1\<rparr> \<and>
         \<not> night_window \<lparr>hour = 21, minute = 59, second = 59, microsecond = 999999\<rparr>"
    by (simp add: night_window_hours time_def)
  show ?thesis using counters vals night_window_hours [of t] by blast
qed

theorem night_window_attribution_witness:
  "ingest_succeeds \<lparr>faults = (\<lambda>op. None), wall_clock = time 6 0, db_clock = 1\<rparr> \<and>
   stored_counter
     (fst (ingest_event \<lparr>thresholds = None, aggregates = None, state = None, updated_at = 0\<rparr>
        \<lparr>faults = (\<lambda>op. None), wall_clock = time 6 0, db_clock = 1\<rparr>
        \<lparr>events = [], digital_twins = [(''u'',
           \<lparr>thresholds = None,
            aggregates = Some [(''today_minutes'', 30), (''weekly_minutes'', 40), (''night_minutes'', 7)],
            state = Some ''Healthy'', updated_at = 0\<rparr>)]\<rparr>
        \<lparr>user_id = ''u'', game_name = ''g'', duration = 5\<rparr>))
     ''u'' ''night_minutes'' = 12"
proof -
  let ?e = "\<lparr>faults = (\<lambda>op. None), wall_clock = time 6 0, db_clock = 1\<rparr>"
  let ?d = "\<lparr>thresholds = None, aggregates = None, state = None, updated_at = 0\<rparr>"
  let ?db = "\<lparr>events = [], digital_twins = [(''u'',
           \<lparr>thresholds = None,
            aggregates = Some [(''today_minutes'', 30), (''weekly_minutes'', 40), (''night_minutes'', 7)],
            state = Some ''Healthy'', updated_at = 0\<rparr>)]\<rparr>"
  let ?ev = "\<lparr>user_id = ''u'', game_name = ''g'', duration = 5\<rparr>"
  have ok: "ingest_succeeds ?e"
    by (simp add: ingest_succeeds_def ingest_ops_def)
  have cur: "dict_get (current_aggregates ?d ?db ''u'') ''night_minutes'' 0 = 7"
    by (simp add: current_aggregates_def select_twin_def insert_twin_def read_aggregates_def
        dict_get_def)
  have nw: "night_window (time 6 0)"
    by (simp add: night_window_def time_ge_def time_le_def time_def)
  from night_window_attribution [OF ok, of ?d ?db ?ev] cur nw ok show ?thesis by simp
qed

section \<open>Failing calls\<close>

lemma calls_until_fault_take:
  "take (length (calls_until_fault e ops)) ops = calls_until_fault e ops"
  by (induction ops) (auto split: option.splits)

lemma calls_until_fault_distinct:
  "distinct ops \<Longrightarrow> distinct (calls_until_fault e ops)"
  using calls_until_fault_take [of e ops] distinct_take [of ops "length (calls_until_fault e ops)"]
  by simp

lemma calls_until_fault_Nil:
  "calls_until_fault e ops = [] \<longleftrightarrow> ops = []"
  by (cases ops) (auto split: option.splits)

lemma calls_until_fault_last:
  "first_fault e ops = Some msg \<Longrightarrow> faults e (last (calls_until_fault e ops)) = Some msg"
  by (induction ops) (auto simp: calls_until_fault_Nil split: option.splits)

lemma ingest_ops_distinct: "distinct ingest_ops"
  by (simp add: ingest_ops_def)

lemma ingest_all_or_nothing:
  "(fst (ingest_event dflt e db ev) = db \<and>
      (\<exists>msg. fst (snd (ingest_event dflt e db ev)) = ErrorEnvelope msg)) \<or>
   (\<exists>r a. select_twin (fst (ingest_event dflt e db ev)) (user_id ev) = Some r \<and>
      aggregates r = Some a \<and>
      state r = Some (new_state (dict_get a ''today_minutes'' 0)) \<and>
      fst (snd (ingest_event dflt e db ev)) =
        Processed (user_id ev) (game_name ev) (dict_get a ''today_minutes'' 0)
          (dict_get a ''weekly_minutes'' 0) (new_state (dict_get a ''today_minutes'' 0)))"
proof (cases "ingest_succeeds e")
  case True
  have "select_twin (fst (ingest_event dflt e db ev)) (user_id ev) =
      Some ((case select_twin db (user_id ev) of None \<Rightarrow> dflt | Some r \<Rightarrow> r)
        \<lparr>aggregates := Some (fst (update_aggregates (wall_clock e) (duration ev)
             (current_aggregates dflt db (user_id ev)))),
         state := Some (new_state
           (dict_get (current_aggregates dflt db (user_id ev)) ''today_minutes'' 0 + duration ev)),
         updated_at := db_clock e\<rparr>)"
    by (simp add: stored_after_ok [OF True])
  moreover have "fst (snd (ingest_event dflt e db ev)) =
      Processed (user_id ev) (game_name ev)
        (dict_get (current_aggregates dflt db (user_id ev)) ''today_minutes'' 0 + duration ev)
        (dict_get (current_aggregates dflt db (user_id ev)) ''weekly_minutes'' 0 + duration ev)
        (new_state
          (dict_get (current_aggregates dflt db (user_id ev)) ''today_minutes'' 0 + duration ev))"
    using update_aggregates_locals [of "wall_clock e" "duration ev"
        "current_aggregates dflt db (user_id ev)"]
    by (auto simp: ingest_event_ok [OF True] split: prod.splits)
  ultimately show ?thesis
    by (simp add: update_aggregates_today update_aggregates_weekly)
next
  case False
  then obtain msg where "first_fault e ingest_ops = Some msg"
    using not_succeeds_fault by blast
  then show ?thesis by (simp add: ingest_event_fail)
qed

text \<open>
  Claim C5. When a database call of \<^verbatim>\<open>ingest_event\<close> raises, the stored database is the
  one the call started with (neither the event row nor the twin is written), the
  response is the error envelope carrying the message raised, and the calls made are
  the statements of the handler in order up to the one that raised, each made once:
  nothing is tried again. In every case either nothing is stored and the response is
  an error envelope, or the user's row holds the new aggregates together with the
  state decided from them.
\<close>

theorem persistence_failure_aborts:
  "(\<not> ingest_succeeds e \<longrightarrow>
      (\<exists>msg. first_fault e ingest_ops = Some msg \<and>
         ingest_event dflt e db ev = (db, ErrorEnvelope msg, calls_until_fault e ingest_ops) \<and>
         faults e (last (calls_until_fault e ingest_ops)) = Some msg) \<and>
      distinct (calls_until_fault e ingest_ops) \<and>
      take (length (calls_until_fault e ingest_ops)) ingest_ops =
        calls_until_fault e ingest_ops) \<and>
   ((fst (ingest_event dflt e db ev) = db \<and>
      (\<exists>msg. fst (snd (ingest_event dflt e db ev)) = ErrorEnvelope msg)) \<or>
    (\<exists>r a. select_twin (fst (ingest_event dflt e db ev)) (user_id ev) = Some r \<and>
      aggregates r = Some a \<and>
      state r = Some (new_state (dict_get a ''today_minutes'' 0)) \<and>
      fst (snd (ingest_event dflt e db ev)) =
        Processed (user_id ev) (game_name ev) (dict_get a ''today_minutes'' 0)
          (dict_get a ''weekly_minutes'' 0) (new_state (dict_get a ''today_minutes'' 0))))"
proof -
  have "\<exists>msg. first_fault e ingest_ops = Some msg \<and>
         ingest_event dflt e db ev = (db, ErrorEnvelope msg, calls_until_fault e ingest_ops) \<and>
         faults e (last (calls_until_fault e ingest_ops)) = Some msg"
    if ns: "\<not> ingest_succeeds e"
  proof -
    obtain msg where m: "first_fault e ingest_ops = Some msg"
      using ns not_succeeds_fault by blast
    show ?thesis
      using m ingest_event_fail [OF m] calls_until_fault_last [OF m] by blast
  qed
  moreover have "distinct (calls_until_fault e ingest_ops)"
    using ingest_ops_distinct by (rule calls_until_fault_distinct)
  moreover note calls_until_fault_take [of e ingest_ops] ingest_all_or_nothing [of dflt e db ev]
  ultimately show ?thesis by blast
qed

theorem persistence_failure_aborts_witness:
  "\<not> ingest_succeeds
       \<lparr>faults = (\<lambda>op. if op = UpdateTwin then Some ''server closed the connection'' else None),
        wall_clock = time 23 0, db_clock = 9\<rparr> \<and>
   ingest_event \<lparr>thresholds = None, aggregates = None, state = None, updated_at = 0\<rparr>
       \<lparr>faults = (\<lambda>op. if op = UpdateTwin then Some ''server closed the connection'' else None),
        wall_clock = time 23 0, db_clock = 9\<rparr>
       \<lparr>events = [], digital_twins = []\<rparr>
       \<lparr>user_id = ''u'', game_name = ''g'', duration = 5\<rparr> =
     (\<lparr>events = [], digital_twins = []\<rparr>,
      ErrorEnvelope ''server closed the connection'',
      [Connect, InsertEvent, InsertTwin, SelectAggregates, UpdateTwin])"
proof -
  let ?e = "\<lparr>faults = (\<lambda>op. if op = UpdateTwin then Some ''server closed the connection'' else None),
        wall_clock = time 23 0, db_clock = 9\<rparr>"
  have no: "\<not> ingest_succeeds ?e"
    by (simp add: ingest_succeeds_def ingest_ops_def)
  have ff: "first_fault ?e ingest_ops = Some ''server closed the connection''"
    by (simp add: ingest_ops_def)
  have tr: "calls_until_fault ?e ingest_ops =
      [Connect, InsertEvent, InsertTwin, SelectAggregates, UpdateTwin]"
    by (simp add: ingest_ops_def)
  from persistence_failure_aborts
    [of ?e "\<lparr>thresholds = None, aggregates = None, state = None, updated_at = 0\<rparr>"
      "\<lparr>events = [], digital_twins = []\<rparr>"
      "\<lparr>user_id = ''u'', game_name = ''g'', duration = 5\<rparr>"] no ff tr
  show ?thesis by auto
qed

section \<open>Runs of events\<close>

lemma counter_after_fail:
  "\<not> ingest_succeeds e \<Longrightarrow>
   current_aggregates dflt (fst (ingest_event dflt e db ev)) uid = current_aggregates dflt db uid"
  by (simp add: ingest_event_fail_db)

lemma run_today:
  "\<forall>c\<in>set calls. ingest_succeeds (fst c) \<and> user_id (snd c) = uid \<Longrightarrow>
   dict_get (current_aggregates dflt (apply_events dflt db calls) uid) ''today_minutes'' 0 =
     dict_get (current_aggregates dflt db uid) ''today_minutes'' 0 +
       sum_list (map (\<lambda>c. duration (snd c)) calls)"
  by (induction calls arbitrary: db) (simp_all add: counter_after_ok)

lemma run_weekly:
  "\<forall>c\<in>set calls. ingest_succeeds (fst c) \<and> user_id (snd c) = uid \<Longrightarrow>
   dict_get (current_aggregates dflt (apply_events dflt db calls) uid) ''weekly_minutes'' 0 =
     dict_get (current_aggregates dflt db uid) ''weekly_minutes'' 0 +
       sum_list (map (\<lambda>c. duration (snd c)) calls)"
  by (induction calls arbitrary: db) (simp_all add: counter_after_ok)

lemma run_row:
  "\<forall>c\<in>set calls. ingest_succeeds (fst c) \<and> user_id (snd c) = uid \<Longrightarrow> calls \<noteq> [] \<Longrightarrow>
   select_twin (apply_events dflt db calls) uid \<noteq> None"
proof (cases calls)
  case Nil
  assume "calls \<noteq> []"
  with Nil show ?thesis by simp
next
  case (Cons c cs)
  assume a: "\<forall>c\<in>set calls. ingest_succeeds (fst c) \<and> user_id (snd c) = uid"
  have "select_twin (fst (ingest_event dflt (fst c) db (snd c))) (user_id (snd c)) \<noteq> None"
    using a Cons by (intro row_made) simp
  moreover have "user_id (snd c) = uid" using a Cons by simp
  ultimately have "select_twin (fst (ingest_event dflt (fst c) db (snd c))) uid \<noteq> None"
    by simp
  then have "select_twin (apply_events dflt (fst (ingest_event dflt (fst c) db (snd c))) cs) uid \<noteq> None"
    by (rule row_kept_run)
  then show ?thesis using Cons by simp
qed

text \<open>
  Claim C2. Events of one user that are handled one after the other and all processed,
  starting from a twin whose \<^verbatim>\<open>today_minutes\<close> and \<^verbatim>\<open>weekly_minutes\<close> read 0, leave both
  stored counters equal to the sum of the durations.
\<close>

theorem sequential_additivity:
  assumes ok: "\<forall>c\<in>set calls. ingest_succeeds (fst c) \<and> user_id (snd c) = uid"
      and t0: "dict_get (current_aggregates dflt db uid) ''today_minutes'' 0 = 0"
      and w0: "dict_get (current_aggregates dflt db uid) ''weekly_minutes'' 0 = 0"
  shows "stored_counter (apply_events dflt db calls) uid ''today_minutes'' =
           sum_list (map (\<lambda>c. duration (snd c)) calls) \<and>
         stored_counter (apply_events dflt db calls) uid ''weekly_minutes'' =
           sum_list (map (\<lambda>c. duration (snd c)) calls)"
proof (cases "calls = []")
  case True
  then show ?thesis
    using t0 w0 by (simp add: stored_counter_row [of db uid _ dflt])
next
  case False
  have row: "select_twin (apply_events dflt db calls) uid \<noteq> None"
    using ok False by (rule run_row)
  show ?thesis
    by (simp add: stored_counter_existing [OF row, of _ dflt] run_today [OF ok]
        run_weekly [OF ok] t0 w0)
qed

theorem sequential_additivity_witness:
  "ingest_succeeds \<lparr>faults = (\<lambda>op. None), wall_clock = time 12 0, db_clock = 1\<rparr> \<and>
   dict_get (current_aggregates
       \<lparr>thresholds = None, aggregates = None, state = None, updated_at = 0\<rparr>
       \<lparr>events = [], digital_twins = []\<rparr> ''u'') ''today_minutes'' 0 = 0 \<and>
   stored_counter
     (apply_events \<lparr>thresholds = None, aggregates = None, state = None, updated_at = 0\<rparr>
        \<lparr>events = [], digital_twins = []\<rparr>
        [(\<lparr>faults = (\<lambda>op. None), wall_clock = time 12 0, db_clock = 1\<rparr>,
          \<lparr>user_id = ''u'', game_name = ''g'', duration = 30\<rparr>),
         (\<lparr>faults = (\<lambda>op. None), wall_clock = time 12 0, db_clock = 1\<rparr>,
          \<lparr>user_id = ''u'', game_name = ''h'', duration = 45\<rparr>)])
     ''u'' ''today_minutes'' = 75 \<and>
   stored_counter
     (apply_events \<lparr>thresholds = None, aggregates = None, state = None, updated_at = 0\<rparr>
        \<lparr>events = [], digital_twins = []\<rparr>
        [(\<lparr>faults = (\<lambda>op. None), wall_clock = time 12 0, db_clock = 1\<rparr>,
          \<lparr>user_id = ''u'', game_name = ''g'', duration = 30\<rparr>),
         (\<lparr>faults = (\<lambda>op. None), wall_clock = time 12 0, db_clock = 1\<rparr>,
          \<lparr>user_id = ''u'', game_name = ''h'', duration = 45\<rparr>)])
     ''u'' ''weekly_minutes'' = 75"
proof -
  let ?e = "\<lparr>faults = (\<lambda>op. None), wall_clock = time 12 0, db_clock = 1\<rparr>"
  let ?d = "\<lparr>thresholds = None, aggregates = None, state = None, updated_at = 0\<rparr>"
  let ?db = "\<lparr>events = [], digital_twins = []\<rparr>"
  let ?calls = "[(?e, \<lparr>user_id = ''u'', game_name = ''g'', duration = 30\<rparr>),
                 (?e, \<lparr>user_id = ''u'', game_name = ''h'', duration = 45\<rparr>)]"
  have ok: "ingest_succeeds ?e"
    by (simp add: ingest_succeeds_def ingest_ops_def)
  have zero: "current_aggregates ?d ?db ''u'' = zero_aggregates"
    by (simp add: current_aggregates_def select_twin_def insert_twin_def read_aggregates_def)
  have t0: "dict_get (current_aggregates ?d ?db ''u'') ''today_minutes'' 0 = 0"
    by (simp add: zero zero_aggregates_def dict_get_def)
  have w0: "dict_get (current_aggregates ?d ?db ''u'') ''weekly_minutes'' 0 = 0"
    by (simp add: zero zero_aggregates_def dict_get_def)
  have all: "\<forall>c\<in>set ?calls. ingest_succeeds (fst c) \<and> user_id (snd c) = ''u''"
    using ok by simp
  from sequential_additivity [OF all t0 w0] ok t0 show ?thesis by simp
qed

section \<open>Counters never decrease\<close>

lemma counter_step_mono:
  assumes "0 \<le> duration ev"
      and "k = ''today_minutes'' \<or> k = ''weekly_minutes'' \<or> k = ''night_minutes''"
  shows "dict_get (current_aggregates dflt db uid) k 0
           \<le> dict_get (current_aggregates dflt (fst (ingest_event dflt e db ev)) uid) k 0"
proof (cases "ingest_succeeds e")
  case True
  show ?thesis using assms by (auto simp: counter_after_ok [OF True])
next
  case False
  then show ?thesis by (simp add: counter_after_fail)
qed

text \<open>
  Claim C8. An event with a duration of at least 0 leaves each of the three counters
  of every user at least as large as the call read it: the value of the stored row,
  or of the row the call creates for a user it has not seen. For a user whose row
  exists this is the stored counter before and after the call.
\<close>

theorem counters_non_decreasing:
  assumes "0 \<le> duration ev"
      and "k = ''today_minutes'' \<or> k = ''weekly_minutes'' \<or> k = ''night_minutes''"
  shows "dict_get (current_aggregates dflt db uid) k 0
           \<le> dict_get (current_aggregates dflt (fst (ingest_event dflt e db ev)) uid) k 0 \<and>
         (select_twin db uid \<noteq> None \<longrightarrow>
            stored_counter db uid k \<le> stored_counter (fst (ingest_event dflt e db ev)) uid k)"
proof -
  have step: "dict_get (current_aggregates dflt db uid) k 0
           \<le> dict_get (current_aggregates dflt (fst (ingest_event dflt e db ev)) uid) k 0"
    using assms by (rule counter_step_mono)
  have "stored_counter db uid k \<le> stored_counter (fst (ingest_event dflt e db ev)) uid k"
    if row: "select_twin db uid \<noteq> None"
  proof -
    have row': "select_twin (fst (ingest_event dflt e db ev)) uid \<noteq> None"
      using row by (rule row_kept)
    show ?thesis
      using step
      by (simp add: stored_counter_existing [OF row, of k dflt]
          stored_counter_existing [OF row', of k dflt])
  qed
  with step show ?thesis by blast
qed

theorem counters_non_decreasing_witness:
  "(0::int) \<le> duration \<lparr>user_id = ''u'', game_name = ''g'', duration = 5\<rparr> \<and>
   select_twin \<lparr>events = [], digital_twins = [(''u'',
       \<lparr>thresholds = None, aggregates = Some [(''today_minutes'', 30)],
        state = None, updated_at = 0\<rparr>)]\<rparr> ''u'' \<noteq> None \<and>
   stored_counter \<lparr>events = [], digital_twins = [(''u'',
       \<lparr>thresholds = None, aggregates = Some [(''today_minutes'', 30)],
        state = None, updated_at = 0\<rparr>)]\<rparr> ''u'' ''today_minutes''
     \<le> stored_counter
         (fst (ingest_event \<lparr>thresholds = None, aggregates = None, state = None, updated_at = 0\<rparr>
            \<lparr>faults = (\<lambda>op. None), wall_clock = time 12 0, db_clock = 1\<rparr>
            \<lparr>events = [], digital_twins = [(''u'',
               \<lparr>thresholds = None, aggregates = Some [(''today_minutes'', 30)],
                state = None, updated_at = 0\<rparr>)]\<rparr>
            \<lparr>user_id = ''u'', game_name = ''g'', duration = 5\<rparr>))
         ''u'' ''today_minutes''"
proof -
  let ?db = "\<lparr>events = [], digital_twins = [(''u'',
       \<lparr>thresholds = None, aggregates = Some [(''today_minutes'', 30)],
        state = None, updated_at = 0\<rparr>)]\<rparr>"
  let ?ev = "\<lparr>user_id = ''u'', game_name = ''g'', duration = 5\<rparr>"
  have d: "(0::int) \<le> duration ?ev" by simp
  have row: "select_twin ?db ''u'' \<noteq> None" by (simp add: select_twin_def)
  from counters_non_decreasing [OF d, of "''today_minutes''"
      "\<lparr>thresholds = None, aggregates = None, state = None, updated_at = 0\<rparr>" ?db "''u''"
      "\<lparr>faults = (\<lambda>op. None), wall_clock = time 12 0, db_clock = 1\<rparr>"] d row
  show ?thesis by simp
qed

section \<open>Today, week and night\<close>

lemma invariant_step:
  assumes d: "0 \<le> duration ev"
      and tw: "dict_get (current_aggregates dflt db uid) ''today_minutes'' 0 =
               dict_get (current_aggregates dflt db uid) ''weekly_minutes'' 0"
      and nt: "dict_get (current_aggregates dflt db uid) ''night_minutes'' 0
               \<le> dict_get (current_aggregates dflt db uid) ''today_minutes'' 0"
  shows "dict_get (current_aggregates dflt (fst (ingest_event dflt e db ev)) uid) ''today_minutes'' 0 =
         dict_get (current_aggregates dflt (fst (ingest_event dflt e db ev)) uid) ''weekly_minutes'' 0 \<and>
         dict_get (current_aggregates dflt (fst (ingest_event dflt e db ev)) uid) ''night_minutes'' 0
           \<le> dict_get (current_aggregates dflt (fst (ingest_event dflt e db ev)) uid) ''today_minutes'' 0"
proof (cases "ingest_succeeds e")
  case True
  show ?thesis using d tw nt by (auto simp: counter_after_ok [OF True])
next
  case False
  then show ?thesis using tw nt by (simp add: counter_after_fail)
qed

lemma invariant_run:
  assumes "\<forall>c\<in>set calls. 0 \<le> duration (snd c)"
      and "dict_get (current_aggregates dflt db uid) ''today_minutes'' 0 =
           dict_get (current_aggregates dflt db uid) ''weekly_minutes'' 0"
      and "dict_get (current_aggregates dflt db uid) ''night_minutes'' 0
           \<le> dict_get (current_aggregates dflt db uid) ''today_minutes'' 0"
  shows "dict_get (current_aggregates dflt (apply_events dflt db calls) uid) ''today_minutes'' 0 =
         dict_get (current_aggregates dflt (apply_events dflt db calls) uid) ''weekly_minutes'' 0 \<and>
         dict_get (current_aggregates dflt (apply_events dflt db calls) uid) ''night_minutes'' 0
           \<le> dict_get (current_aggregates dflt (apply_events dflt db calls) uid) ''today_minutes'' 0"
  using assms
proof (induction calls arbitrary: db)
  case Nil
  then show ?case by simp
next
  case (Cons c cs)
  have d: "0 \<le> duration (snd c)" using Cons.prems(1) by simp
  have rest: "\<forall>c\<in>set cs. 0 \<le> duration (snd c)" using Cons.prems(1) by simp
  note step = invariant_step [OF d Cons.prems(2) Cons.prems(3), of "fst c"]
  show ?case
    using Cons.IH [OF rest conjunct1 [OF step] conjunct2 [OF step]] by simp
qed

text \<open>
  Claim C10. For a twin that starts from the zeroed aggregates and is changed only by
  events handled one after the other, each with a duration of at least 0, the stored
  \<^verbatim>\<open>today_minutes\<close> equals the stored \<^verbatim>\<open>weekly_minutes\<close> and the stored \<^verbatim>\<open>night_minutes\<close>
  is at most \<^verbatim>\<open>today_minutes\<close>, whatever the users, times and failures of the calls.
\<close>

theorem today_weekly_night_invariant:
  assumes durations: "\<forall>c\<in>set calls. 0 \<le> duration (snd c)"
      and start: "current_aggregates dflt db uid = zero_aggregates"
  shows "stored_counter (apply_events dflt db calls) uid ''today_minutes'' =
           stored_counter (apply_events dflt db calls) uid ''weekly_minutes'' \<and>
         stored_counter (apply_events dflt db calls) uid ''night_minutes''
           \<le> stored_counter (apply_events dflt db calls) uid ''today_minutes''"
proof -
  have tw: "dict_get (current_aggregates dflt db uid) ''today_minutes'' 0 =
            dict_get (current_aggregates dflt db uid) ''weekly_minutes'' 0"
    by (simp add: start zero_aggregates_def dict_get_def)
  have nt: "dict_get (current_aggregates dflt db uid) ''night_minutes'' 0
            \<le> dict_get (current_aggregates dflt db uid) ''today_minutes'' 0"
    by (simp add: start zero_aggregates_def dict_get_def)
  note inv = invariant_run [OF durations tw nt]
  show ?thesis
  proof (cases "select_twin (apply_events dflt db calls) uid = None")
    case True
    then show ?thesis by (simp add: stored_counter_def)
  next
    case False
    show ?thesis
      using inv by (simp add: stored_counter_existing [OF False, of _ dflt])
  qed
qed

theorem today_weekly_night_invariant_witness:
  "current_aggregates \<lparr>thresholds = None, aggregates = None, state = None, updated_at = 0\<rparr>
      \<lparr>events = [], digital_twins = []\<rparr> ''u'' = zero_aggregates \<and>
   stored_counter
     (apply_events \<lparr>thresholds = None, aggregates = None, state = None, updated_at = 0\<rparr>
        \<lparr>events = [], digital_twins = []\<rparr>
        [(\<lparr>faults = (\<lambda>op. None), wall_clock = time 23 0, db_clock = 1\<rparr>,
          \<lparr>user_id = ''u'', game_name = ''g'', duration = 30\<rparr>),
         (\<lparr>faults = (\<lambda>op. None), wall_clock = time 12 0, db_clock = 2\<rparr>,
          \<lparr>user_id = ''u'', game_name = ''h'', duration = 45\<rparr>)])
     ''u'' ''night_minutes''
   \<le> stored_counter
     (apply_events \<lparr>thresholds = None, aggregates = None, state = None, updated_at = 0\<rparr>
        \<lparr>events = [], digital_twins = []\<rparr>
        [(\<lparr>faults = (\<lambda>op. None), wall_clock = time 23 0, db_clock = 1\<rparr>,
          \<lparr>user_id = ''u'', game_name = ''g'', duration = 30\<rparr>),
         (\<lparr>faults = (\<lambda>op. None), wall_clock = time 12 0, db_clock = 2\<rparr>,
          \<lparr>user_id = ''u'', game_name = ''h'', duration = 45\<rparr>)])
     ''u'' ''today_minutes''"
proof -
  let ?d = "\<lparr>thresholds = None, aggregates = None, state = None, updated_at = 0\<rparr>"
  let ?db = "\<lparr>events = [], digital_twins = []\<rparr>"
  let ?calls = "[(\<lparr>faults = (\<lambda>op. None), wall_clock = time 23 0, db_clock = 1\<rparr>,
          \<lparr>user_id = ''u'', game_name = ''g'', duration = 30\<rparr>),
         (\<lparr>faults = (\<lambda>op. None), wall_clock = time 12 0, db_clock = 2\<rparr>,
          \<lparr>user_id = ''u'', game_name = ''h'', duration = 45\<rparr>)]"
  have zero: "current_aggregates ?d ?db ''u'' = zero_aggregates"
    by (simp add: current_aggregates_def select_twin_def insert_twin_def read_aggregates_def)
  have all: "\<forall>c\<in>set ?calls. 0 \<le> duration (snd c)"
    by simp
  from today_weekly_night_invariant [OF all zero] zero show ?thesis by simp
qed

section \<open>Thresholds\<close>

lemma update_threshold_ok:
  "threshold_succeeds e db uid \<Longrightarrow>
   update_threshold dflt e db uid body =
     (update_where uid
        (\<lambda>r. r\<lparr>thresholds := Some (merge_thresholds body (prior_thresholds db uid)),
                updated_at := db_clock e\<rparr>)
        (case select_twin db uid of None \<Rightarrow> insert_twin dflt db uid | Some r \<Rightarrow> db),
      ThresholdsView uid (merge_thresholds body (prior_thresholds db uid)),
      threshold_ops db uid)"
  by (cases "select_twin db uid")
    (simp_all add: threshold_succeeds_def threshold_ops_def update_threshold_def
      update_threshold_body_def and_then_def execute_def return_io_def prior_thresholds_def
      Let_def)

lemma update_threshold_fail:
  "first_fault e (threshold_ops db uid) = Some msg \<Longrightarrow>
   update_threshold dflt e db uid body =
     (db, ErrorEnvelope msg, calls_until_fault e (threshold_ops db uid))"
  by (cases "select_twin db uid")
    (simp_all add: threshold_ops_def update_threshold_def update_threshold_body_def
      and_then_def execute_def return_io_def Let_def split: option.splits prod.splits)

lemma merge_thresholds_daily:
  "map_of (merge_thresholds body t0) ''daily'' =
     (case daily body of Some v \<Rightarrow> Some v | None \<Rightarrow> map_of t0 ''daily'')"
  by (simp add: merge_thresholds_def dict_set_def update_conv' split: option.splits)

lemma merge_thresholds_night:
  "map_of (merge_thresholds body t0) ''night'' =
     (case night body of Some v \<Rightarrow> Some v | None \<Rightarrow> map_of t0 ''night'')"
  by (simp add: merge_thresholds_def dict_set_def update_conv' split: option.splits)

lemma merge_thresholds_other:
  "k \<noteq> ''daily'' \<Longrightarrow> k \<noteq> ''night'' \<Longrightarrow>
   map_of (merge_thresholds body t0) k = map_of t0 k"
  by (simp add: merge_thresholds_def dict_set_def update_conv' split: option.splits)

lemma threshold_row_after:
  "threshold_succeeds e db uid \<Longrightarrow>
   select_twin (fst (update_threshold dflt e db uid body)) uid =
     Some ((case select_twin db uid of None \<Rightarrow> dflt | Some r \<Rightarrow> r)
       \<lparr>thresholds := Some (merge_thresholds body (prior_thresholds db uid)),
        updated_at := db_clock e\<rparr>)"
  by (cases "select_twin db uid")
    (simp_all add: update_threshold_ok select_update_where select_insert_twin)

text \<open>
  Claim C6. An \<^verbatim>\<open>update_threshold\<close> whose database calls succeed returns and stores the
  user's prior thresholds with exactly the supplied fields replaced: \<^verbatim>\<open>daily\<close> and
  \<^verbatim>\<open>night\<close> take the supplied value or keep the prior one, every other key is kept.
  The row is created when the user had none, and the stored value is the returned
  one. From \<^verbatim>\<open>{daily:150, night:50}\<close>, supplying only \<^verbatim>\<open>night = 40\<close> gives
  \<^verbatim>\<open>{daily:150, night:40}\<close>.
\<close>

theorem partial_threshold_update:
  assumes "threshold_succeeds e db uid"
  shows "fst (snd (update_threshold dflt e db uid body)) =
           ThresholdsView uid (merge_thresholds body (prior_thresholds db uid)) \<and>
         select_twin (fst (update_threshold dflt e db uid body)) uid =
           Some ((case select_twin db uid of None \<Rightarrow> dflt | Some r \<Rightarrow> r)
             \<lparr>thresholds := Some (merge_thresholds body (prior_thresholds db uid)),
              updated_at := db_clock e\<rparr>) \<and>
         map_of (merge_thresholds body (prior_thresholds db uid)) ''daily'' =
           (case daily body of Some v \<Rightarrow> Some v
            | None \<Rightarrow> map_of (prior_thresholds db uid) ''daily'') \<and>
         map_of (merge_thresholds body (prior_thresholds db uid)) ''night'' =
           (case night body of Some v \<Rightarrow> Some v
            | None \<Rightarrow> map_of (prior_thresholds db uid) ''night'') \<and>
         (\<forall>k. k \<noteq> ''daily'' \<longrightarrow> k \<noteq> ''night'' \<longrightarrow>
            map_of (merge_thresholds body (prior_thresholds db uid)) k =
              map_of (prior_thresholds db uid) k) \<and>
         merge_thresholds \<lparr>daily = None, night = Some 40\<rparr> [(''daily'', 150), (''night'', 50)] =
           [(''daily'', 150), (''night'', 40)]"
proof -
  have ex: "merge_thresholds \<lparr>daily = None, night = Some 40\<rparr> [(''daily'', 150), (''night'', 50)] =
           [(''daily'', 150), (''night'', 40)]"
    by (simp add: merge_thresholds_def dict_set_def)
  have resp: "fst (snd (update_threshold dflt e db uid body)) =
           ThresholdsView uid (merge_thresholds body (prior_thresholds db uid))"
    by (simp add: update_threshold_ok [OF assms])
  show ?thesis
    using ex resp threshold_row_after [OF assms, of dflt body]
      merge_thresholds_daily [of body "prior_thresholds db uid"]
      merge_thresholds_night [of body "prior_thresholds db uid"]
      merge_thresholds_other [of _ body "prior_thresholds db uid"]
    by blast
qed

theorem partial_threshold_update_witness:
  "threshold_succeeds \<lparr>faults = (\<lambda>op. None), wall_clock = time 12 0, db_clock = 3\<rparr>
     \<lparr>events = [], digital_twins = [(''u'',
        \<lparr>thresholds = Some [(''daily'', 150), (''night'', 50)], aggregates = None,
         state = None, updated_at = 0\<rparr>)]\<rparr> ''u'' \<and>
   fst (snd (update_threshold
     \<lparr>thresholds = None, aggregates = None, state = None, updated_at = 0\<rparr>
     \<lparr>faults = (\<lambda>op. None), wall_clock = time 12 0, db_clock = 3\<rparr>
     \<lparr>events = [], digital_twins = [(''u'',
        \<lparr>thresholds = Some [(''daily'', 150), (''night'', 50)], aggregates = None,
         state = None, updated_at = 0\<rparr>)]\<rparr>
     ''u'' \<lparr>daily = None, night = Some 40\<rparr>)) =
     ThresholdsView ''u'' [(''daily'', 150), (''night'', 40)]"
proof -
  let ?e = "\<lparr>faults = (\<lambda>op. None), wall_clock = time 12 0, db_clock = 3\<rparr>"
  let ?db = "\<lparr>events = [], digital_twins = [(''u'',
        \<lparr>thresholds = Some [(''daily'', 150), (''night'', 50)], aggregates = None,
         state = None, updated_at = 0\<rparr>)]\<rparr>"
  have ok: "threshold_succeeds ?e ?db ''u''"
    by (simp add: threshold_succeeds_def threshold_ops_def select_twin_def)
  have prior: "prior_thresholds ?db ''u'' = [(''daily'', 150), (''night'', 50)]"
    by (simp add: prior_thresholds_def select_twin_def or_default_thresholds_def)
  from partial_threshold_update [OF ok,
      of "\<lparr>thresholds = None, aggregates = None, state = None, updated_at = 0\<rparr>"
         "\<lparr>daily = None, night = Some 40\<rparr>"] ok prior
  show ?thesis by simp
qed

section \<open>Reads\<close>

lemma get_twin_result:
  "fst (get_twin e db uid) =
     (case first_fault e [Connect, SelectTwin] of
        Some msg \<Rightarrow> ErrorEnvelope msg
      | None \<Rightarrow>
          (case select_twin db uid of
             Some r \<Rightarrow> TwinView uid (thresholds r) (aggregates r) (state r)
           | None \<Rightarrow> UserNotFound))"
  by (simp add: get_twin_def get_twin_body_def and_then_def execute_def return_io_def
      split: option.splits)

lemma get_report_result:
  "fst (get_report e db uid) =
     (case first_fault e [Connect, SelectReport] of
        Some msg \<Rightarrow> ErrorEnvelope msg
      | None \<Rightarrow>
          (case select_twin db uid of
             None \<Rightarrow> UserNotFound
           | Some r \<Rightarrow>
               Report uid
                 (dict_get (or_empty (aggregates r)) ''today_minutes'' 0)
                 (dict_get (or_empty (aggregates r)) ''weekly_minutes'' 0)
                 (dict_get (or_empty (aggregates r)) ''night_minutes'' 0)
                 (state r)
                 (dict_get (or_empty (thresholds r)) ''daily'' 120)
                 (dict_get (or_empty (thresholds r)) ''night'' 60)))"
  by (simp add: get_report_def get_report_body_def and_then_def execute_def return_io_def
      Let_def split: option.splits)

text \<open>
  Claim C9. For a user without a twin row, \<^verbatim>\<open>get_twin\<close> and \<^verbatim>\<open>get_report\<close> answer
  with the not-found response whenever their database calls succeed, and with the
  error envelope when one raises: never with anything else. For a user whose row has
  \<^verbatim>\<open>NULL\<close> thresholds, the report gives 120 as daily and 60 as night threshold.
\<close>

theorem reads_of_unknown_user:
  "(select_twin db uid = None \<longrightarrow>
      fst (get_twin e db uid) =
        (case first_fault e [Connect, SelectTwin] of
           None \<Rightarrow> UserNotFound | Some msg \<Rightarrow> ErrorEnvelope msg) \<and>
      fst (get_report e db uid) =
        (case first_fault e [Connect, SelectReport] of
           None \<Rightarrow> UserNotFound | Some msg \<Rightarrow> ErrorEnvelope msg)) \<and>
   (select_twin db uid = Some r \<longrightarrow> thresholds r = None \<longrightarrow>
      first_fault e [Connect, SelectReport] = None \<longrightarrow>
      fst (get_report e db uid) =
        Report uid
          (dict_get (or_empty (aggregates r)) ''today_minutes'' 0)
          (dict_get (or_empty (aggregates r)) ''weekly_minutes'' 0)
          (dict_get (or_empty (aggregates r)) ''night_minutes'' 0)
          (state r) 120 60)"
proof -
  have twin: "fst (get_twin e db uid) =
        (case first_fault e [Connect, SelectTwin] of
           None \<Rightarrow> UserNotFound | Some msg \<Rightarrow> ErrorEnvelope msg)"
    if "select_twin db uid = None"
    using that by (simp add: get_twin_result split: option.splits)
  have report: "fst (get_report e db uid) =
        (case first_fault e [Connect, SelectReport] of
           None \<Rightarrow> UserNotFound | Some msg \<Rightarrow> ErrorEnvelope msg)"
    if "select_twin db uid = None"
    using that by (simp add: get_report_result split: option.splits)
  have dflt: "fst (get_report e db uid) =
        Report uid
          (dict_get (or_empty (aggregates r)) ''today_minutes'' 0)
          (dict_get (or_empty (aggregates r)) ''weekly_minutes'' 0)
          (dict_get (or_empty (aggregates r)) ''night_minutes'' 0)
          (state r) 120 60"
    if "select_twin db uid = Some r" "thresholds r = None"
       "first_fault e [Connect, SelectReport] = None"
    using that by (simp add: get_report_result or_empty_def dict_get_def)
  show ?thesis using twin report dflt by blast
qed

theorem reads_of_unknown_user_witness:
  "select_twin \<lparr>events = [], digital_twins = [(''u'',
       \<lparr>thresholds = None, aggregates = Some [(''today_minutes'', 30)],
        state = Some ''Healthy'', updated_at = 0\<rparr>)]\<rparr> ''nobody'' = None \<and>
   fst (get_twin \<lparr>faults = (\<lambda>op. None), wall_clock = time 12 0, db_clock = 3\<rparr>
      \<lparr>events = [], digital_twins = [(''u'',
       \<lparr>thresholds = None, aggregates = Some [(''today_minutes'', 30)],
        state = Some ''Healthy'', updated_at = 0\<rparr>)]\<rparr> ''nobody'') = UserNotFound \<and>
   fst (get_report \<lparr>faults = (\<lambda>op. None), wall_clock = time 12 0, db_clock = 3\<rparr>
      \<lparr>events = [], digital_twins = [(''u'',
       \<lparr>thresholds = None, aggregates = Some [(''today_minutes'', 30)],
        state = Some ''Healthy'', updated_at = 0\<rparr>)]\<rparr> ''nobody'') = UserNotFound \<and>
   fst (get_report \<lparr>faults = (\<lambda>op. None), wall_clock = time 12 0, db_clock = 3\<rparr>
      \<lparr>events = [], digital_twins = [(''u'',
       \<lparr>thresholds = None, aggregates = Some [(''today_minutes'', 30)],
        state = Some ''Healthy'', updated_at = 0\<rparr>)]\<rparr> ''u'') =
     Report ''u'' 30 0 0 (Some ''Healthy'') 120 60"
proof -
  let ?e = "\<lparr>faults = (\<lambda>op. None), wall_clock = time 12 0, db_clock = 3\<rparr>"
  let ?r = "\<lparr>thresholds = None, aggregates = Some [(''today_minutes'', 30)],
        state = Some ''Healthy'', updated_at = 0\<rparr>"
  let ?db = "\<lparr>events = [], digital_twins = [(''u'', ?r)]\<rparr>"
  have none: "select_twin ?db ''nobody'' = None"
    by (simp add: select_twin_def)
  have row: "select_twin ?db ''u'' = Some ?r"
    by (simp add: select_twin_def)
  have f1: "first_fault ?e [Connect, SelectTwin] = None" by simp
  have f2: "first_fault ?e [Connect, SelectReport] = None" by simp
  have vals: "dict_get (or_empty (aggregates ?r)) ''today_minutes'' 0 = 30"
    "dict_get (or_empty (aggregates ?r)) ''weekly_minutes'' 0 = 0"
    "dict_get (or_empty (aggregates ?r)) ''night_minutes'' 0 = 0"
    by (simp_all add: or_empty_def dict_get_def)
  from reads_of_unknown_user [where db = ?db and uid = "''nobody''" and e = ?e] none f1 f2
  have unknown: "fst (get_twin ?e ?db ''nobody'') = UserNotFound \<and>
      fst (get_report ?e ?db ''nobody'') = UserNotFound"
    by simp
  from reads_of_unknown_user [where db = ?db and uid = "''u''" and r = ?r and e = ?e] row f2 vals
  have known: "fst (get_report ?e ?db ''u'') = Report ''u'' 30 0 0 (Some ''Healthy'') 120 60"
    by simp
  from none unknown known show ?thesis by blast
qed

section \<open>Creation of the twin row\<close>

lemma twin_rows_Nil: "twin_rows db uid = [] \<longleftrightarrow> select_twin db uid = None"
  by (auto simp: twin_rows_def select_twin_def map_of_eq_None_iff filter_empty_conv)

lemma twin_rows_insert_twin:
  "select_twin db uid = None \<Longrightarrow> twin_rows (insert_twin dflt db uid) uid = [dflt]"
  using twin_rows_Nil [of db uid]
  by (simp add: twin_rows_def insert_twin_def select_twin_def)

lemma twin_rows_update_where:
  "twin_rows (update_where uid f db) uid = map f (twin_rows db uid)"
proof -
  have "map snd (filter (\<lambda>p. fst p = uid)
          (map (\<lambda>(k, r). if k = uid then (k, f r) else (k, r)) rows)) =
        map f (map snd (filter (\<lambda>p. fst p = uid) rows))" for rows
    by (induction rows) (auto split: if_splits)
  then show ?thesis by (simp add: twin_rows_def update_where_def)
qed

lemma insert_twin_existing:
  "select_twin db uid \<noteq> None \<Longrightarrow> insert_twin dflt db uid = db"
  by (auto simp: insert_twin_def select_twin_def)

lemma insert_twin_twice:
  "insert_twin dflt (insert_twin dflt db uid) uid = insert_twin dflt db uid"
  by (rule insert_twin_existing) (simp add: select_insert_twin)

lemma twin_rows_after_event:
  assumes "select_twin db (user_id ev) = None" and "ingest_succeeds e"
  shows "twin_rows (fst (ingest_event dflt e db ev)) (user_id ev) =
     [dflt\<lparr>aggregates := Some (fst (update_aggregates (wall_clock e) (duration ev)
               (read_aggregates (Some dflt)))),
           state := Some (new_state
               (dict_get (read_aggregates (Some dflt)) ''today_minutes'' 0 + duration ev)),
           updated_at := db_clock e\<rparr>]"
proof -
  have cur: "current_aggregates dflt db (user_id ev) = read_aggregates (Some dflt)"
    using assms(1) by (simp add: current_aggregates_row)
  have new: "select_twin (insert_event db ev) (user_id ev) = None"
    using assms(1) by simp
  show ?thesis
    using update_aggregates_locals [of "wall_clock e" "duration ev" "read_aggregates (Some dflt)"]
    by (auto simp: ingest_event_ok [OF assms(2)] cur twin_rows_update_where
        twin_rows_insert_twin [OF new] split: prod.splits)
qed

lemma twin_rows_after_threshold:
  assumes "select_twin db uid = None" and "threshold_succeeds e db uid"
  shows "twin_rows (fst (update_threshold dflt e db uid body)) uid =
     [dflt\<lparr>thresholds := Some (merge_thresholds body default_thresholds),
           updated_at := db_clock e\<rparr>]"
  using assms(1)
  by (simp add: update_threshold_ok [OF assms(2)] twin_rows_update_where
      twin_rows_insert_twin prior_thresholds_def)

text \<open>
  Claim C7. For a user without a row, the insert both handlers make creates exactly
  one row holding the column defaults, here the spec's: thresholds
  \<^verbatim>\<open>{daily:120, night:60}\<close> and zeroed aggregates. Making the insert again changes
  nothing. After a processed \<^verbatim>\<open>ingest_event\<close> the user has exactly one row, with the
  default thresholds and the event added to the zeroed aggregates; after a completed
  \<^verbatim>\<open>update_threshold\<close> the user has exactly one row, with the update merged into the
  default thresholds and the zeroed aggregates.
\<close>

theorem first_contact_creates_twin:
  assumes "select_twin db uid = None"
  shows "twin_rows (insert_twin (spec_default_row st ts) db uid) uid =
           [\<lparr>thresholds = Some [(''daily'', 120), (''night'', 60)],
             aggregates = Some [(''today_minutes'', 0), (''weekly_minutes'', 0),
                                (''night_minutes'', 0)],
             state = st, updated_at = ts\<rparr>] \<and>
         insert_twin (spec_default_row st ts) (insert_twin (spec_default_row st ts) db uid) uid =
           insert_twin (spec_default_row st ts) db uid \<and>
         (ingest_succeeds e \<longrightarrow> user_id ev = uid \<longrightarrow>
            twin_rows (fst (ingest_event (spec_default_row st ts) e db ev)) uid =
              [\<lparr>thresholds = Some [(''daily'', 120), (''night'', 60)],
                aggregates = Some (fst (update_aggregates (wall_clock e) (duration ev)
                   [(''today_minutes'', 0), (''weekly_minutes'', 0), (''night_minutes'', 0)])),
                state = Some (new_state (duration ev)),
                updated_at = db_clock e\<rparr>]) \<and>
         (threshold_succeeds e db uid \<longrightarrow>
            twin_rows (fst (update_threshold (spec_default_row st ts) e db uid body)) uid =
              [\<lparr>thresholds = Some (merge_thresholds body [(''daily'', 120), (''night'', 60)]),
                aggregates = Some [(''today_minutes'', 0), (''weekly_minutes'', 0),
                                   (''night_minutes'', 0)],
                state = st, updated_at = db_clock e\<rparr>])"
proof -
  let ?d = "spec_default_row st ts"
  have zero: "read_aggregates (Some ?d) =
      [(''today_minutes'', 0), (''weekly_minutes'', 0), (''night_minutes'', 0)]"
    by (simp add: read_aggregates_def spec_default_row_def zero_aggregates_def)
  have created: "twin_rows (insert_twin ?d db uid) uid =
           [\<lparr>thresholds = Some [(''daily'', 120), (''night'', 60)],
             aggregates = Some [(''today_minutes'', 0), (''weekly_minutes'', 0),
                                (''night_minutes'', 0)],
             state = st, updated_at = ts\<rparr>]"
    by (simp add: twin_rows_insert_twin [OF assms] spec_default_row_def default_thresholds_def
        zero_aggregates_def)
  have event: "twin_rows (fst (ingest_event ?d e db ev)) uid =
              [\<lparr>thresholds = Some [(''daily'', 120), (''night'', 60)],
                aggregates = Some (fst (update_aggregates (wall_clock e) (duration ev)
                   [(''today_minutes'', 0), (''weekly_minutes'', 0), (''night_minutes'', 0)])),
                state = Some (new_state (duration ev)),
                updated_at = db_clock e\<rparr>]"
    if ok: "ingest_succeeds e" and u: "user_id ev = uid"
  proof -
    have none: "select_twin db (user_id ev) = None" using assms u by simp
    show ?thesis
      using twin_rows_after_event [OF none ok, of ?d] u
      by (simp add: zero dict_get_def) (simp add: spec_default_row_def default_thresholds_def)
  qed
  have update: "twin_rows (fst (update_threshold ?d e db uid body)) uid =
              [\<lparr>thresholds = Some (merge_thresholds body [(''daily'', 120), (''night'', 60)]),
                aggregates = Some [(''today_minutes'', 0), (''weekly_minutes'', 0),
                                   (''night_minutes'', 0)],
                state = st, updated_at = db_clock e\<rparr>]"
    if ok: "threshold_succeeds e db uid"
    by (simp add: twin_rows_after_threshold [OF assms ok])
      (simp add: spec_default_row_def default_thresholds_def zero_aggregates_def)
  show ?thesis using created insert_twin_twice [of ?d db uid] event update by blast
qed

theorem first_contact_creates_twin_witness:
  "select_twin \<lparr>events = [], digital_twins = []\<rparr> ''u'' = None \<and>
   twin_rows (fst (ingest_event (spec_default_row None 0)
      \<lparr>faults = (\<lambda>op. None), wall_clock = time 12 0, db_clock = 1\<rparr>
      \<lparr>events = [], digital_twins = []\<rparr>
      \<lparr>user_id = ''u'', game_name = ''g'', duration = 5\<rparr>)) ''u'' =
     [\<lparr>thresholds = Some [(''daily'', 120), (''night'', 60)],
       aggregates = Some [(''today_minutes'', 5), (''weekly_minutes'', 5),
                          (''night_minutes'', 0)],
       state = Some ''Healthy'', updated_at = 1\<rparr>] \<and>
   twin_rows (fst (update_threshold (spec_default_row None 0)
      \<lparr>faults = (\<lambda>op. None), wall_clock = time 12 0, db_clock = 1\<rparr>
      \<lparr>events = [], digital_twins = []\<rparr> ''u'' \<lparr>daily = None, night = Some 40\<rparr>)) ''u'' =
     [\<lparr>thresholds = Some [(''daily'', 120), (''night'', 40)],
       aggregates = Some [(''today_minutes'', 0), (''weekly_minutes'', 0),
                          (''night_minutes'', 0)],
       state = None, updated_at = 1\<rparr>]"
proof -
  let ?e = "\<lparr>faults = (\<lambda>op. None), wall_clock = time 12 0, db_clock = 1\<rparr>"
  let ?db = "\<lparr>events = [], digital_twins = []\<rparr>"
  let ?ev = "\<lparr>user_id = ''u'', game_name = ''g'', duration = 5\<rparr>"
  let ?body = "\<lparr>daily = None, night = Some 40\<rparr>"
  have none: "select_twin ?db ''u'' = None"
    by (simp add: select_twin_def)
  have ok: "ingest_succeeds ?e"
    by (simp add: ingest_succeeds_def ingest_ops_def)
  have tok: "threshold_succeeds ?e ?db ''u''"
    by (simp add: threshold_succeeds_def threshold_ops_def select_twin_def)
  have day: "\<not> night_window (time 12 0)"
    by (simp add: night_window_def time_ge_def time_le_def time_def)
  have agg: "fst (update_aggregates (wall_clock ?e) (duration ?ev)
      [(''today_minutes'', 0), (''weekly_minutes'', 0), (''night_minutes'', 0)]) =
      [(''today_minutes'', 5), (''weekly_minutes'', 5), (''night_minutes'', 0)]"
    using day by (simp add: update_aggregates_def dict_get_def dict_set_def Let_def)
  have st: "new_state (duration ?ev) = ''Healthy''"
    by (simp add: new_state_def)
  have mrg: "merge_thresholds ?body [(''daily'', 120), (''night'', 60)] =
      [(''daily'', 120), (''night'', 40)]"
    by (simp add: merge_thresholds_def dict_set_def)
  from first_contact_creates_twin [OF none, of None 0 ?e ?ev ?body] none ok tok agg st mrg
  show ?thesis by simp
qed

section \<open>Lost updates\<close>

text \<open>A processed call is its two parts, run without anything in between.\<close>

lemma ingest_event_read_write:
  "ingest_succeeds e \<Longrightarrow>
   fst (ingest_event dflt e db ev) = ingest_write dflt e db ev (ingest_read dflt db ev)"
  by (simp add: ingest_event_ok ingest_write_def ingest_read_def current_aggregates_def
      select_insert_twin split: prod.splits)

lemma one_after_another_run:
  "\<forall>c\<in>set calls. ingest_succeeds (fst c) \<Longrightarrow>
   fst (run_schedule dflt (one_after_another calls) (db, reads)) = apply_events dflt db calls"
  by (induction calls arbitrary: db reads) (simp_all add: ingest_event_read_write)

text \<open>
  Claim C1, as stated, fails. Two events of one minute each for a user whose stored
  \<^verbatim>\<open>today_minutes\<close> is 0: both calls read before either writes, each computes 0 + 1,
  and the second commit overwrites the first. The stored \<^verbatim>\<open>today_minutes\<close> is 1, where
  the claim gives 0 + 1 + 1.
\<close>

theorem lost_update:
  "stored_counter
     \<lparr>events = [], digital_twins = [(''u'',
        \<lparr>thresholds = None,
         aggregates = Some [(''today_minutes'', 0), (''weekly_minutes'', 0), (''night_minutes'', 0)],
         state = Some ''Healthy'', updated_at = 0\<rparr>)]\<rparr> ''u'' ''today_minutes'' = 0 \<and>
   stored_counter
     (fst (run_schedule \<lparr>thresholds = None, aggregates = None, state = None, updated_at = 0\<rparr>
        [Begin 0 \<lparr>user_id = ''u'', game_name = ''g'', duration = 1\<rparr>,
         Begin 1 \<lparr>user_id = ''u'', game_name = ''h'', duration = 1\<rparr>,
         Finish 0 \<lparr>faults = (\<lambda>op. None), wall_clock = time 12 0, db_clock = 1\<rparr>
           \<lparr>user_id = ''u'', game_name = ''g'', duration = 1\<rparr>,
         Finish 1 \<lparr>faults = (\<lambda>op. None), wall_clock = time 12 0, db_clock = 2\<rparr>
           \<lparr>user_id = ''u'', game_name = ''h'', duration = 1\<rparr>]
        (\<lparr>events = [], digital_twins = [(''u'',
           \<lparr>thresholds = None,
            aggregates = Some [(''today_minutes'', 0), (''weekly_minutes'', 0), (''night_minutes'', 0)],
            state = Some ''Healthy'', updated_at = 0\<rparr>)]\<rparr>, (\<lambda>i. None))))
     ''u'' ''today_minutes'' = 1"
  by (simp add: stored_counter_def select_twin_def or_empty_def dict_get_def dict_set_def
      ingest_read_def ingest_write_def insert_event_def insert_twin_def update_where_def
      read_aggregates_def update_aggregates_def night_window_def time_ge_def time_le_def
      time_def Let_def)

text \<open>
  Claim C1, amended. When the calls for a user are handled one after the other, each
  finishing before the next begins, and all are processed, the stored \<^verbatim>\<open>today_minutes\<close>
  ends as its value before the calls plus the sum of the durations: no event is lost
  and none is counted twice.
\<close>

theorem one_after_another_no_lost_update:
  assumes ok: "\<forall>c\<in>set calls. ingest_succeeds (fst c) \<and> user_id (snd c) = uid"
      and row: "select_twin db uid \<noteq> None"
  shows "stored_counter (fst (run_schedule dflt (one_after_another calls) (db, reads)))
           uid ''today_minutes'' =
         stored_counter db uid ''today_minutes'' + sum_list (map (\<lambda>c. duration (snd c)) calls)"
proof -
  have all: "\<forall>c\<in>set calls. ingest_succeeds (fst c)"
    using ok by simp
  have row': "select_twin (apply_events dflt db calls) uid \<noteq> None"
    using row by (rule row_kept_run)
  show ?thesis
    by (simp add: one_after_another_run [OF all] stored_counter_existing [OF row, of _ dflt]
        stored_counter_existing [OF row', of _ dflt] run_today [OF ok])
qed

theorem one_after_another_no_lost_update_witness:
  "ingest_succeeds \<lparr>faults = (\<lambda>op. None), wall_clock = time 12 0, db_clock = 1\<rparr> \<and>
   select_twin \<lparr>events = [], digital_twins = [(''u'',
        \<lparr>thresholds = None,
         aggregates = Some [(''today_minutes'', 7), (''weekly_minutes'', 7), (''night_minutes'', 0)],
         state = Some ''Healthy'', updated_at = 0\<rparr>)]\<rparr> ''u'' \<noteq> None \<and>
   stored_counter
     (fst (run_schedule \<lparr>thresholds = None, aggregates = None, state = None, updated_at = 0\<rparr>
        (one_after_another
          [(\<lparr>faults = (\<lambda>op. None), wall_clock = time 12 0, db_clock = 1\<rparr>,
            \<lparr>user_id = ''u'', game_name = ''g'', duration = 1\<rparr>),
           (\<lparr>faults = (\<lambda>op. None), wall_clock = time 12 0, db_clock = 1\<rparr>,
            \<lparr>user_id = ''u'', game_name = ''h'', duration = 1\<rparr>)])
        (\<lparr>events = [], digital_twins = [(''u'',
           \<lparr>thresholds = None,
            aggregates = Some [(''today_minutes'', 7), (''weekly_minutes'', 7), (''night_minutes'', 0)],
            state = Some ''Healthy'', updated_at = 0\<rparr>)]\<rparr>, (\<lambda>i. None))))
     ''u'' ''today_minutes'' = 9"
proof -
  let ?e = "\<lparr>faults = (\<lambda>op. None), wall_clock = time 12 0, db_clock = 1\<rparr>"
  let ?db = "\<lparr>events = [], digital_twins = [(''u'',
        \<lparr>thresholds = None,
         aggregates = Some [(''today_minutes'', 7), (''weekly_minutes'', 7), (''night_minutes'', 0)],
         state = Some ''Healthy'', updated_at = 0\<rparr>)]\<rparr>"
  let ?calls = "[(?e, \<lparr>user_id = ''u'', game_name = ''g'', duration = 1\<rparr>),
                 (?e, \<lparr>user_id = ''u'', game_name = ''h'', duration = 1\<rparr>)]"
  have ok: "ingest_succeeds ?e"
    by (simp add: ingest_succeeds_def ingest_ops_def)
  have row: "select_twin ?db ''u'' \<noteq> None"
    by (simp add: select_twin_def)
  have start: "stored_counter ?db ''u'' ''today_minutes'' = 7"
    by (simp add: stored_counter_def select_twin_def or_empty_def dict_get_def)
  have all: "\<forall>c\<in>set ?calls. ingest_succeeds (fst c) \<and> user_id (snd c) = ''u''"
    using ok by simp
  from one_after_another_no_lost_update [OF all row,
      of "\<lparr>thresholds = None, aggregates = None, state = None, updated_at = 0\<rparr>" "\<lambda>i. None"]
    ok row start
  show ?thesis by simp
qed

end
